theory Spec2Isabelle
  imports Complex_Main "HOL-Library.AList"
begin

section \<open>Platform values\<close>

text \<open>
  Exceptions that the controllers and services raise or let through. The four
  \<open>...Exception\<close> constructors are the NestJS HTTP exceptions with their message,
  \<open>PrismaClientKnownRequestError\<close> carries the store's error code (\<open>P2002\<close> unique
  constraint, \<open>P2025\<close> record not found), \<open>Error\<close> is a plain JavaScript error and
  \<open>TypeError\<close> a property read on \<open>undefined\<close>.
\<close>

datatype exn =
    NotFoundException string
  | ForbiddenException string
  | BadRequestException string
  | ConflictException string
  | PrismaClientKnownRequestError string
  | PrismaClientValidationError
  | Error string
  | TypeError

text \<open>\<open>HttpExceptionFilter.handlePrismaError\<close>: the status for a store error code.\<close>

definition handlePrismaError :: "string \<Rightarrow> nat" where
  "handlePrismaError code =
     (if code = ''P2000'' then 400
      else if code = ''P2002'' then 409
      else if code = ''P2014'' then 400
      else if code = ''P2003'' then 400
      else if code = ''P2025'' then 404
      else if code = ''P2016'' then 400
      else if code = ''P2021'' then 500
      else if code = ''P2022'' then 500
      else 500)"

text \<open>
  \<open>HttpExceptionFilter.catch\<close>: the HTTP status written to the response. An HTTP
  exception answers with its own status, a store error with the status of its code, and
  anything else with 500.
\<close>

fun catch_status :: "exn \<Rightarrow> nat" where
  "catch_status (NotFoundException m) = 404"
| "catch_status (ForbiddenException m) = 403"
| "catch_status (BadRequestException m) = 400"
| "catch_status (ConflictException m) = 409"
| "catch_status (PrismaClientKnownRequestError code) = handlePrismaError code"
| "catch_status PrismaClientValidationError = handlePrismaError []"
| "catch_status (Error m) = 500"
| "catch_status TypeError = 500"

text \<open>
  A JavaScript \<open>Date\<close>: an instant in milliseconds, or the \<open>Invalid Date\<close> that date
  arithmetic yields outside the representable range.
\<close>

datatype js_date = Valid int | InvalidDate

text \<open>
  What the platform supplies to a request: the clock read by \<open>new Date()\<close> (milliseconds,
  one instant for the whole request), the date that \<open>new Date()\<close> followed by
  \<open>setDate(getDate() - days)\<close> yields in the local calendar of the server, the
  identifier generated for a row created by the request, and the column defaults of the
  store schema, which is not among the sources and is therefore a parameter.
\<close>

record env =
  env_now :: int
  env_startDate :: "int \<Rightarrow> js_date"
  env_newId :: string
  env_videoStatus :: string
  env_videoProgress :: int
  env_accountActive :: bool
  env_accountAutoPost :: bool
  env_profileActive :: bool

text \<open>JSON values stored in settings columns, and objects as ordered key/value lists.\<close>

datatype jval = JNum int | JStr string | JBool bool | JNull

type_synonym json_obj = "(string \<times> jval) list"

text \<open>Object spread \<open>{...a, ...b}\<close>: the keys of \<open>b\<close> override or extend those of \<open>a\<close>.\<close>

definition spread :: "json_obj \<Rightarrow> json_obj \<Rightarrow> json_obj" where
  "spread a b = fold (\<lambda>(k, v). AList.update k v) b a"

text \<open>\<open>x || {}\<close> on an optional object.\<close>

definition or_empty :: "json_obj option \<Rightarrow> json_obj" where
  "or_empty x = (case x of None \<Rightarrow> [] | Some obj \<Rightarrow> obj)"

text \<open>JavaScript truthiness of an optional string: absent and empty strings are falsy.\<close>

definition truthy :: "string option \<Rightarrow> bool" where
  "truthy x = (case x of None \<Rightarrow> False | Some t \<Rightarrow> t \<noteq> [])"

text \<open>\<open>x || d\<close> on an optional string.\<close>

definition str_or :: "string option \<Rightarrow> string \<Rightarrow> string" where
  "str_or x d = (if truthy x then the x else d)"

text \<open>\<open>x || d\<close> on an optional number: absent and zero are falsy.\<close>

definition num_or :: "int option \<Rightarrow> int \<Rightarrow> int" where
  "num_or x d = (case x of None \<Rightarrow> d | Some n \<Rightarrow> if n = 0 then d else n)"

text \<open>Decimal rendering of a number in a template literal.\<close>

fun digits :: "nat \<Rightarrow> string" where
  "digits n =
     (if n < 10 then [''0123456789'' ! n]
      else digits (n div 10) @ [''0123456789'' ! (n mod 10)])"

definition num_to_string :: "int \<Rightarrow> string" where
  "num_to_string i = (if i < 0 then CHR ''-'' # digits (nat (- i)) else digits (nat i))"

text \<open>
  \<open>String.prototype.toLowerCase\<close> and \<open>includes\<close>, on strings of ASCII characters.
\<close>

definition lower_char :: "char \<Rightarrow> char" where
  "lower_char c =
     (case map_of (zip ''ABCDEFGHIJKLMNOPQRSTUVWXYZ'' ''abcdefghijklmnopqrstuvwxyz'') c of
        Some l \<Rightarrow> l
      | None \<Rightarrow> c)"

definition toLowerCase :: "string \<Rightarrow> string" where
  "toLowerCase t = map lower_char t"

fun starts_with :: "string \<Rightarrow> string \<Rightarrow> bool" where
  "starts_with t [] = True"
| "starts_with [] (c # cs) = False"
| "starts_with (x # xs) (c # cs) = (x = c \<and> starts_with xs cs)"

fun str_includes :: "string \<Rightarrow> string \<Rightarrow> bool" where
  "str_includes [] w = (w = [])"
| "str_includes (x # xs) w = (starts_with (x # xs) w \<or> str_includes xs w)"

text \<open>
  A quotient of two numbers. Dividing by zero does not raise: it yields \<open>NaN\<close> or an
  infinity, which is rendered here as \<open>None\<close>, so that a finite result is \<open>Some\<close>.
\<close>

definition js_div :: "real \<Rightarrow> real \<Rightarrow> real option" where
  "js_div a b = (if b = 0 then None else Some (a / b))"

text \<open>
  A JavaScript number that results from dividing two integers and rounding up: a whole
  number, or one of the values a division by zero produces.
\<close>

datatype js_number = Finite int | Infinity | NegInfinity | NaN

text \<open>\<open>Math.ceil(total / limit)\<close>.\<close>

definition math_ceil_div :: "int \<Rightarrow> int \<Rightarrow> js_number" where
  "math_ceil_div n limit =
     (if limit = 0
      then (if n > 0 then Infinity else if n < 0 then NegInfinity else NaN)
      else Finite \<lceil>real_of_int n / real_of_int limit\<rceil>)"

text \<open>\<open>page < totalPages\<close> on such a number; every comparison with \<open>NaN\<close> is false.\<close>

fun js_less :: "int \<Rightarrow> js_number \<Rightarrow> bool" where
  "js_less page (Finite n) = (page < n)"
| "js_less page Infinity = True"
| "js_less page NegInfinity = False"
| "js_less page NaN = False"

section \<open>The store\<close>

text \<open>
  The rows of the five tables the handlers work on, with the columns the handlers read or
  write. Left out are the template reference and posting schedule of a series, the media
  columns of a video (URL, duration, resolution, cost), which no handler writes, and the
  notification preferences of a profile.
\<close>

record Profile =
  pf_id :: string
  pf_email :: string
  pf_fullName :: "string option"
  pf_avatarUrl :: "string option"
  pf_timezone :: "string option"
  pf_preferredLanguage :: "string option"
  pf_businessName :: "string option"
  pf_businessType :: "string option"
  pf_isActive :: bool
  pf_createdAt :: int
  pf_updatedAt :: int

record UserSeries =
  sr_id :: string
  sr_userId :: string
  sr_name :: string
  sr_description :: "string option"
  sr_customPrompt :: "string option"
  sr_visualStyle :: "json_obj option"
  sr_voiceSettings :: "json_obj option"
  sr_musicSettings :: "json_obj option"
  sr_postingFrequency :: int
  sr_videoDuration :: int
  sr_contentStyle :: "string option"
  sr_useTrendingTopics :: bool
  sr_isActive :: bool
  sr_totalVideosGenerated :: int
  sr_totalViews :: int
  sr_totalLikes :: int
  sr_createdAt :: int
  sr_updatedAt :: int

record Video =
  v_id :: string
  v_userId :: string
  v_seriesId :: string
  v_title :: string
  v_description :: "string option"
  v_script :: string
  v_promptUsed :: string
  v_tags :: "string list"
  v_generationSettings :: json_obj
  v_status :: string
  v_generationProgress :: int
  v_errorMessage :: "string option"
  v_createdAt :: int
  v_updatedAt :: int

record SocialAccount =
  a_id :: string
  a_userId :: string
  a_platform :: string
  a_platformUserId :: string
  a_username :: string
  a_displayName :: "string option"
  a_accessToken :: string
  a_refreshToken :: "string option"
  a_tokenExpiresAt :: "int option"
  a_followerCount :: "int option"
  a_profileImageUrl :: "string option"
  a_isVerified :: "bool option"
  a_isActive :: bool
  a_autoPost :: bool
  a_connectedAt :: int
  a_lastSyncAt :: "int option"

record SocialPost =
  p_id :: string
  p_socialAccountId :: string
  p_videoId :: string
  p_platform :: string
  p_status :: string
  p_caption :: "string option"
  p_viewsCount :: int
  p_likesCount :: int
  p_commentsCount :: int
  p_sharesCount :: int
  p_engagementRate :: real
  p_scheduledFor :: "int option"
  p_publishedAt :: "int option"
  p_createdAt :: int

record store =
  profiles :: "Profile list"
  userSeries :: "UserSeries list"
  videos :: "Video list"
  socialAccounts :: "SocialAccount list"
  socialPosts :: "SocialPost list"

subsection \<open>Store primitives\<close>

text \<open>
  A table is the list of its rows. \<open>findUnique\<close> looks a row up by its key, \<open>create\<close>
  refuses a key that is taken with \<open>P2002\<close>, and \<open>update\<close> and \<open>delete\<close> answer
  \<open>P2025\<close> when no row has the key.
\<close>

definition findUnique :: "('r \<Rightarrow> string) \<Rightarrow> 'r list \<Rightarrow> string \<Rightarrow> 'r option" where
  "findUnique key rows i = find (\<lambda>r. key r = i) rows"

definition prisma_create :: "('r \<Rightarrow> string) \<Rightarrow> 'r list \<Rightarrow> 'r \<Rightarrow> exn + ('r \<times> 'r list)" where
  "prisma_create key rows r =
     (case findUnique key rows (key r) of
        Some old \<Rightarrow> Inl (PrismaClientKnownRequestError ''P2002'')
      | None \<Rightarrow> Inr (r, rows @ [r]))"

definition prisma_update ::
  "('r \<Rightarrow> string) \<Rightarrow> 'r list \<Rightarrow> string \<Rightarrow> ('r \<Rightarrow> 'r) \<Rightarrow> exn + ('r \<times> 'r list)" where
  "prisma_update key rows i f =
     (case findUnique key rows i of
        None \<Rightarrow> Inl (PrismaClientKnownRequestError ''P2025'')
      | Some r \<Rightarrow> Inr (f r, map (\<lambda>x. if key x = i then f x else x) rows))"

definition prisma_delete :: "('r \<Rightarrow> string) \<Rightarrow> 'r list \<Rightarrow> string \<Rightarrow> exn + ('r \<times> 'r list)" where
  "prisma_delete key rows i =
     (case findUnique key rows i of
        None \<Rightarrow> Inl (PrismaClientKnownRequestError ''P2025'')
      | Some r \<Rightarrow> Inr (r, filter (\<lambda>x. key x \<noteq> i) rows))"

text \<open>\<open>orderBy: { createdAt: 'desc' }\<close>: newest first.\<close>

definition order_desc :: "('r \<Rightarrow> int) \<Rightarrow> 'r list \<Rightarrow> 'r list" where
  "order_desc created rows = rev (sort_key created rows)"

text \<open>\<open>Array.prototype.slice(start, end)\<close>; a negative index counts from the end.\<close>

definition slice :: "'a list \<Rightarrow> int \<Rightarrow> int \<Rightarrow> 'a list" where
  "slice xs start end =
     (let len = int (length xs);
          k = (if start < 0 then max (len + start) 0 else min start len);
          final = (if end < 0 then max (len + end) 0 else min end len)
      in take (nat (final - k)) (drop (nat k) xs))"

section \<open>SeriesService\<close>

definition seriesService_getSeriesById :: "store \<Rightarrow> string \<Rightarrow> UserSeries option" where
  "seriesService_getSeriesById s i = findUnique sr_id (userSeries s) i"

text \<open>The \<open>videos\<close> relation included by \<open>getSeriesById\<close>, newest first.\<close>

definition series_videos :: "store \<Rightarrow> string \<Rightarrow> Video list" where
  "series_videos s i = order_desc v_createdAt (filter (\<lambda>v. v_seriesId v = i) (videos s))"

definition seriesService_getUserSeries :: "store \<Rightarrow> string \<Rightarrow> UserSeries list" where
  "seriesService_getUserSeries s userId =
     order_desc sr_createdAt (filter (\<lambda>r. sr_userId r = userId) (userSeries s))"

text \<open>
  The body of a series update: every field is optional and a supplied one replaces the
  stored one.
\<close>

record UpdateSeriesDto =
  us_name :: "string option"
  us_description :: "string option"
  us_customPrompt :: "string option"
  us_visualStyle :: "json_obj option"
  us_voiceSettings :: "json_obj option"
  us_musicSettings :: "json_obj option"
  us_postingFrequency :: "int option"
  us_videoDuration :: "int option"
  us_contentStyle :: "string option"
  us_useTrendingTopics :: "bool option"
  us_isActive :: "bool option"

definition override :: "'a option \<Rightarrow> 'a \<Rightarrow> 'a" where
  "override x old = (case x of None \<Rightarrow> old | Some new \<Rightarrow> new)"

definition override_opt :: "'a option \<Rightarrow> 'a option \<Rightarrow> 'a option" where
  "override_opt x old = (case x of None \<Rightarrow> old | Some new \<Rightarrow> Some new)"

definition apply_series_update :: "UpdateSeriesDto \<Rightarrow> int \<Rightarrow> UserSeries \<Rightarrow> UserSeries" where
  "apply_series_update d now r =
     r\<lparr> sr_name := override (us_name d) (sr_name r),
        sr_description := override_opt (us_description d) (sr_description r),
        sr_customPrompt := override_opt (us_customPrompt d) (sr_customPrompt r),
        sr_visualStyle := override_opt (us_visualStyle d) (sr_visualStyle r),
        sr_voiceSettings := override_opt (us_voiceSettings d) (sr_voiceSettings r),
        sr_musicSettings := override_opt (us_musicSettings d) (sr_musicSettings r),
        sr_postingFrequency := override (us_postingFrequency d) (sr_postingFrequency r),
        sr_videoDuration := override (us_videoDuration d) (sr_videoDuration r),
        sr_contentStyle := override_opt (us_contentStyle d) (sr_contentStyle r),
        sr_useTrendingTopics := override (us_useTrendingTopics d) (sr_useTrendingTopics r),
        sr_isActive := override (us_isActive d) (sr_isActive r),
        sr_updatedAt := now \<rparr>"

definition seriesService_updateSeries ::
  "env \<Rightarrow> string \<Rightarrow> UpdateSeriesDto \<Rightarrow> store \<Rightarrow> (exn + UserSeries) \<times> store" where
  "seriesService_updateSeries e i d s =
     (case prisma_update sr_id (userSeries s) i (apply_series_update d (env_now e)) of
        Inl err \<Rightarrow> (Inl err, s)
      | Inr (r, rows) \<Rightarrow> (Inr r, s\<lparr>userSeries := rows\<rparr>))"

definition seriesService_toggleSeriesStatus ::
  "env \<Rightarrow> string \<Rightarrow> bool \<Rightarrow> store \<Rightarrow> (exn + UserSeries) \<times> store" where
  "seriesService_toggleSeriesStatus e i isActive s =
     (case prisma_update sr_id (userSeries s) i
             (\<lambda>r. r\<lparr>sr_isActive := isActive, sr_updatedAt := env_now e\<rparr>) of
        Inl err \<Rightarrow> (Inl err, s)
      | Inr (r, rows) \<Rightarrow> (Inr r, s\<lparr>userSeries := rows\<rparr>))"

record SeriesStats =
  st_totalVideosGenerated :: "int option"
  st_totalViews :: "int option"
  st_totalLikes :: "int option"

definition seriesService_updateSeriesStats ::
  "env \<Rightarrow> string \<Rightarrow> SeriesStats \<Rightarrow> store \<Rightarrow> (exn + UserSeries) \<times> store" where
  "seriesService_updateSeriesStats e i stats s =
     (case findUnique sr_id (userSeries s) i of
        None \<Rightarrow> (Inl (Error ''Series not found''), s)
      | Some current \<Rightarrow>
          (case prisma_update sr_id (userSeries s) i
                  (\<lambda>r. r\<lparr> sr_totalVideosGenerated :=
                            (case st_totalVideosGenerated stats of
                               Some n \<Rightarrow> n
                             | None \<Rightarrow> sr_totalVideosGenerated current + 1),
                          sr_totalViews :=
                            (case st_totalViews stats of
                               Some n \<Rightarrow> n
                             | None \<Rightarrow> sr_totalViews current),
                          sr_totalLikes :=
                            (case st_totalLikes stats of
                               Some n \<Rightarrow> n
                             | None \<Rightarrow> sr_totalLikes current),
                          sr_updatedAt := env_now e \<rparr>) of
             Inl err \<Rightarrow> (Inl err, s)
           | Inr (r, rows) \<Rightarrow> (Inr r, s\<lparr>userSeries := rows\<rparr>)))"

text \<open>
  Deleting a series removes the series and, as the operation is documented, all videos
  associated with it.
\<close>

definition seriesService_deleteSeries :: "string \<Rightarrow> store \<Rightarrow> (exn + UserSeries) \<times> store" where
  "seriesService_deleteSeries i s =
     (case prisma_delete sr_id (userSeries s) i of
        Inl err \<Rightarrow> (Inl err, s)
      | Inr (r, rows) \<Rightarrow>
          (Inr r, s\<lparr> userSeries := rows,
                     videos := filter (\<lambda>v. v_seriesId v \<noteq> i) (videos s) \<rparr>))"

section \<open>VideoService\<close>

text \<open>
  The store's \<open>take\<close> and \<open>skip\<close>: a negative \<open>skip\<close> is rejected, a negative
  \<open>take\<close> reads from the end of the ordered rows.
\<close>

definition take_skip :: "int \<Rightarrow> int \<Rightarrow> 'r list \<Rightarrow> exn + 'r list" where
  "take_skip n skip rows =
     (if skip < 0 then Inl PrismaClientValidationError
      else if 0 \<le> n then Inr (take (nat n) (drop (nat skip) rows))
      else Inr (rev (take (nat (- n)) (drop (nat skip) (rev rows)))))"

record CreateVideoData =
  cv_userId :: string
  cv_seriesId :: string
  cv_title :: string
  cv_description :: "string option"
  cv_script :: string
  cv_promptUsed :: string
  cv_tags :: "string list option"
  cv_generationSettings :: "json_obj option"

definition videoService_createVideo ::
  "env \<Rightarrow> CreateVideoData \<Rightarrow> store \<Rightarrow> (exn + Video) \<times> store" where
  "videoService_createVideo e d s =
     (case prisma_create v_id (videos s)
             \<lparr> v_id = env_newId e,
               v_userId = cv_userId d,
               v_seriesId = cv_seriesId d,
               v_title = cv_title d,
               v_description = cv_description d,
               v_script = cv_script d,
               v_promptUsed = cv_promptUsed d,
               v_tags = (case cv_tags d of None \<Rightarrow> [] | Some ts \<Rightarrow> ts),
               v_generationSettings = or_empty (cv_generationSettings d),
               v_status = env_videoStatus e,
               v_generationProgress = env_videoProgress e,
               v_errorMessage = None,
               v_createdAt = env_now e,
               v_updatedAt = env_now e \<rparr> of
        Inl err \<Rightarrow> (Inl err, s)
      | Inr (r, rows) \<Rightarrow> (Inr r, s\<lparr>videos := rows\<rparr>))"

definition videoService_findVideoById :: "store \<Rightarrow> string \<Rightarrow> Video option" where
  "videoService_findVideoById s i = findUnique v_id (videos s) i"

text \<open>The \<open>series\<close> and \<open>socialPosts\<close> relations included with a video.\<close>

definition video_series :: "store \<Rightarrow> Video \<Rightarrow> UserSeries option" where
  "video_series s v = findUnique sr_id (userSeries s) (v_seriesId v)"

definition video_socialPosts :: "store \<Rightarrow> Video \<Rightarrow> SocialPost list" where
  "video_socialPosts s v = filter (\<lambda>p. p_videoId p = v_id v) (socialPosts s)"

record VideoQuery =
  vq_status :: "string option"
  vq_seriesId :: "string option"
  vq_limit :: "int option"
  vq_offset :: "int option"

definition videoService_getUserVideos :: "store \<Rightarrow> string \<Rightarrow> VideoQuery \<Rightarrow> exn + Video list" where
  "videoService_getUserVideos s userId q =
     take_skip (num_or (vq_limit q) 20) (num_or (vq_offset q) 0)
       (order_desc v_createdAt
          (filter (\<lambda>v. v_userId v = userId
                     \<and> (truthy (vq_status q) \<longrightarrow> v_status v = the (vq_status q))
                     \<and> (truthy (vq_seriesId q) \<longrightarrow> v_seriesId v = the (vq_seriesId q)))
             (videos s)))"

definition videoService_updateVideoStatus ::
  "env \<Rightarrow> string \<Rightarrow> string \<Rightarrow> int option \<Rightarrow> string option \<Rightarrow> store \<Rightarrow> (exn + Video) \<times> store" where
  "videoService_updateVideoStatus e i status progress errorMessage s =
     (case prisma_update v_id (videos s) i
             (\<lambda>r. r\<lparr> v_status := status,
                     v_generationProgress :=
                       (case progress of None \<Rightarrow> v_generationProgress r | Some p \<Rightarrow> p),
                     v_errorMessage :=
                       (if truthy errorMessage then errorMessage else v_errorMessage r),
                     v_updatedAt := env_now e \<rparr>) of
        Inl err \<Rightarrow> (Inl err, s)
      | Inr (r, rows) \<Rightarrow> (Inr r, s\<lparr>videos := rows\<rparr>))"

text \<open>
  The data \<open>updateVideoContent\<close> receives from the controller: the keys that the
  controller copied from the request body. The description is absent (\<open>None\<close>), null
  (\<open>Some None\<close>) or a string.
\<close>

record VideoContentData =
  vc_title :: "string option"
  vc_description :: "string option option"
  vc_script :: "string option"
  vc_tags :: "string list option"
  vc_generationSettings :: "json_obj option"

definition videoService_updateVideoContent ::
  "env \<Rightarrow> string \<Rightarrow> VideoContentData \<Rightarrow> store \<Rightarrow> (exn + Video) \<times> store" where
  "videoService_updateVideoContent e i d s =
     (case prisma_update v_id (videos s) i
             (\<lambda>r. r\<lparr> v_title := override (vc_title d) (v_title r),
                     v_description := override (vc_description d) (v_description r),
                     v_script := override (vc_script d) (v_script r),
                     v_tags := override (vc_tags d) (v_tags r),
                     v_generationSettings :=
                       override (vc_generationSettings d) (v_generationSettings r),
                     v_status := ''ready'',
                     v_generationProgress := 100,
                     v_updatedAt := env_now e \<rparr>) of
        Inl err \<Rightarrow> (Inl err, s)
      | Inr (r, rows) \<Rightarrow> (Inr r, s\<lparr>videos := rows\<rparr>))"

text \<open>
  Deleting a video removes the video and, as the operation is documented, all social posts
  associated with it.
\<close>

definition videoService_deleteVideo :: "string \<Rightarrow> store \<Rightarrow> (exn + Video) \<times> store" where
  "videoService_deleteVideo i s =
     (case prisma_delete v_id (videos s) i of
        Inl err \<Rightarrow> (Inl err, s)
      | Inr (r, rows) \<Rightarrow>
          (Inr r, s\<lparr> videos := rows,
                     socialPosts := filter (\<lambda>p. p_videoId p \<noteq> i) (socialPosts s) \<rparr>))"

section \<open>SocialAccountService\<close>

record ConnectAccountData =
  ca_userId :: string
  ca_platform :: string
  ca_platformUserId :: string
  ca_username :: string
  ca_displayName :: "string option"
  ca_accessToken :: string
  ca_refreshToken :: "string option"
  ca_tokenExpiresAt :: "int option"
  ca_followerCount :: "int option"
  ca_profileImageUrl :: "string option"
  ca_isVerified :: "bool option"
  ca_autoPost :: "bool option"

definition socialAccountService_connectAccount ::
  "env \<Rightarrow> ConnectAccountData \<Rightarrow> store \<Rightarrow> (exn + SocialAccount) \<times> store" where
  "socialAccountService_connectAccount e d s =
     (case prisma_create a_id (socialAccounts s)
             \<lparr> a_id = env_newId e,
               a_userId = ca_userId d,
               a_platform = ca_platform d,
               a_platformUserId = ca_platformUserId d,
               a_username = ca_username d,
               a_displayName = ca_displayName d,
               a_accessToken = ca_accessToken d,
               a_refreshToken = ca_refreshToken d,
               a_tokenExpiresAt = ca_tokenExpiresAt d,
               a_followerCount = ca_followerCount d,
               a_profileImageUrl = ca_profileImageUrl d,
               a_isVerified = ca_isVerified d,
               a_isActive = env_accountActive e,
               a_autoPost = override (ca_autoPost d) (env_accountAutoPost e),
               a_connectedAt = env_now e,
               a_lastSyncAt = None \<rparr> of
        Inl err \<Rightarrow> (Inl err, s)
      | Inr (r, rows) \<Rightarrow> (Inr r, s\<lparr>socialAccounts := rows\<rparr>))"

definition socialAccountService_getSocialAccountById :: "store \<Rightarrow> string \<Rightarrow> SocialAccount option" where
  "socialAccountService_getSocialAccountById s i = findUnique a_id (socialAccounts s) i"

text \<open>The \<open>socialPosts\<close> relation included by \<open>getSocialAccountById\<close>: the ten newest.\<close>

definition account_recentPosts :: "store \<Rightarrow> string \<Rightarrow> SocialPost list" where
  "account_recentPosts s i =
     take 10 (order_desc p_createdAt (filter (\<lambda>p. p_socialAccountId p = i) (socialPosts s)))"

definition socialAccountService_getSocialAccountByPlatform ::
  "store \<Rightarrow> string \<Rightarrow> string \<Rightarrow> SocialAccount option" where
  "socialAccountService_getSocialAccountByPlatform s userId platform =
     find (\<lambda>a. a_userId a = userId \<and> a_platform a = platform \<and> a_isActive a = True)
       (socialAccounts s)"

text \<open>
  The body of a social-account update: every field is optional and a supplied one replaces
  the stored one. The expiry is carried as the instant the controller converts it to.
\<close>

record UpdateSocialAccountDto =
  ua_platform :: "string option"
  ua_platformUserId :: "string option"
  ua_username :: "string option"
  ua_displayName :: "string option"
  ua_accessToken :: "string option"
  ua_refreshToken :: "string option"
  ua_tokenExpiresAt :: "int option"
  ua_followerCount :: "int option"
  ua_profileImageUrl :: "string option"
  ua_isVerified :: "bool option"
  ua_autoPost :: "bool option"
  ua_isActive :: "bool option"

definition socialAccountService_updateSocialAccount ::
  "env \<Rightarrow> string \<Rightarrow> UpdateSocialAccountDto \<Rightarrow> store \<Rightarrow> (exn + SocialAccount) \<times> store" where
  "socialAccountService_updateSocialAccount e i d s =
     (case prisma_update a_id (socialAccounts s) i
             (\<lambda>r. r\<lparr> a_platform := override (ua_platform d) (a_platform r),
                     a_platformUserId := override (ua_platformUserId d) (a_platformUserId r),
                     a_username := override (ua_username d) (a_username r),
                     a_displayName := override_opt (ua_displayName d) (a_displayName r),
                     a_accessToken := override (ua_accessToken d) (a_accessToken r),
                     a_refreshToken := override_opt (ua_refreshToken d) (a_refreshToken r),
                     a_tokenExpiresAt := override_opt (ua_tokenExpiresAt d) (a_tokenExpiresAt r),
                     a_followerCount := override_opt (ua_followerCount d) (a_followerCount r),
                     a_profileImageUrl := override_opt (ua_profileImageUrl d) (a_profileImageUrl r),
                     a_isVerified := override_opt (ua_isVerified d) (a_isVerified r),
                     a_autoPost := override (ua_autoPost d) (a_autoPost r),
                     a_isActive := override (ua_isActive d) (a_isActive r),
                     a_lastSyncAt := Some (env_now e) \<rparr>) of
        Inl err \<Rightarrow> (Inl err, s)
      | Inr (r, rows) \<Rightarrow> (Inr r, s\<lparr>socialAccounts := rows\<rparr>))"

text \<open>
  The metrics written by \<open>updateAccountMetrics\<close>: an absent key leaves the column, a
  present key writes its value, which may be null.
\<close>

record AccountMetrics =
  am_followerCount :: "int option option"
  am_profileImageUrl :: "string option option"
  am_isVerified :: "bool option option"

definition socialAccountService_updateAccountMetrics ::
  "env \<Rightarrow> string \<Rightarrow> AccountMetrics \<Rightarrow> store \<Rightarrow> (exn + SocialAccount) \<times> store" where
  "socialAccountService_updateAccountMetrics e i m s =
     (case prisma_update a_id (socialAccounts s) i
             (\<lambda>r. r\<lparr> a_followerCount := override (am_followerCount m) (a_followerCount r),
                     a_profileImageUrl := override (am_profileImageUrl m) (a_profileImageUrl r),
                     a_isVerified := override (am_isVerified m) (a_isVerified r),
                     a_lastSyncAt := Some (env_now e) \<rparr>) of
        Inl err \<Rightarrow> (Inl err, s)
      | Inr (r, rows) \<Rightarrow> (Inr r, s\<lparr>socialAccounts := rows\<rparr>))"

definition socialAccountService_toggleAutoPost ::
  "string \<Rightarrow> bool \<Rightarrow> store \<Rightarrow> (exn + SocialAccount) \<times> store" where
  "socialAccountService_toggleAutoPost i autoPost s =
     (case prisma_update a_id (socialAccounts s) i (\<lambda>r. r\<lparr>a_autoPost := autoPost\<rparr>) of
        Inl err \<Rightarrow> (Inl err, s)
      | Inr (r, rows) \<Rightarrow> (Inr r, s\<lparr>socialAccounts := rows\<rparr>))"

text \<open>
  Disconnecting removes the account and, as the operation is documented, all data
  associated with it.
\<close>

definition socialAccountService_disconnectAccount ::
  "string \<Rightarrow> store \<Rightarrow> (exn + SocialAccount) \<times> store" where
  "socialAccountService_disconnectAccount i s =
     (case prisma_delete a_id (socialAccounts s) i of
        Inl err \<Rightarrow> (Inl err, s)
      | Inr (r, rows) \<Rightarrow>
          (Inr r, s\<lparr> socialAccounts := rows,
                     socialPosts := filter (\<lambda>p. p_socialAccountId p \<noteq> i) (socialPosts s) \<rparr>))"

subsection \<open>Account analytics\<close>

record AnalyticsAccount =
  aa_id :: string
  aa_platform :: string
  aa_username :: string
  aa_followerCount :: "int option"

record AnalyticsMetrics =
  mt_totalPosts :: int
  mt_totalViews :: int
  mt_totalLikes :: int
  mt_totalComments :: int
  mt_totalShares :: int
  mt_avgEngagementRate :: "real option"
  mt_postsPerDay :: "real option"

record AnalyticsPost =
  ap_id :: string
  ap_caption :: "string option"
  ap_publishedAt :: "int option"
  ap_viewsCount :: int
  ap_likesCount :: int
  ap_engagementRate :: real

record AccountAnalytics =
  an_account :: AnalyticsAccount
  an_metrics :: AnalyticsMetrics
  an_recentPosts :: "AnalyticsPost list"

text \<open>\<open>posts.reduce((sum, post) => sum + field(post), 0)\<close>.\<close>

definition reduce_sum :: "('r \<Rightarrow> int) \<Rightarrow> 'r list \<Rightarrow> int" where
  "reduce_sum field posts = foldl (\<lambda>sum post. sum + field post) 0 posts"

text \<open>
  The start of the lookback window is the platform's date \<open>days\<close> days before now. The
  store refuses a query whose date is invalid, so the call raises before it looks the
  account up.
\<close>

definition socialAccountService_getAccountAnalytics ::
  "env \<Rightarrow> store \<Rightarrow> string \<Rightarrow> int \<Rightarrow> exn + AccountAnalytics option" where
  "socialAccountService_getAccountAnalytics e s accountId days =
     (case env_startDate e days of
        InvalidDate \<Rightarrow> Inl PrismaClientValidationError
      | Valid startDate \<Rightarrow>
               (case findUnique a_id (socialAccounts s) accountId of
                  None \<Rightarrow> Inr None
                | Some account \<Rightarrow>
                    (let posts = order_desc p_createdAt
                                   (filter (\<lambda>p. p_socialAccountId p = accountId
                                              \<and> startDate \<le> p_createdAt p)
                                      (socialPosts s));
                         totalPosts = int (length posts);
                         totalViews = reduce_sum p_viewsCount posts;
                         totalLikes = reduce_sum p_likesCount posts;
                         totalComments = reduce_sum p_commentsCount posts;
                         totalShares = reduce_sum p_sharesCount posts;
                         avgEngagement =
                           (if totalPosts > 0 \<and> totalViews > 0
                            then map_option (\<lambda>q. q * 100)
                                   (js_div (real_of_int (totalLikes + totalComments + totalShares))
                                      (real_of_int totalViews))
                            else Some 0)
                     in Inr (Some \<lparr> an_account =
                                 \<lparr> aa_id = a_id account,
                                   aa_platform = a_platform account,
                                   aa_username = a_username account,
                                   aa_followerCount = a_followerCount account \<rparr>,
                               an_metrics =
                                 \<lparr> mt_totalPosts = totalPosts,
                                   mt_totalViews = totalViews,
                                   mt_totalLikes = totalLikes,
                                   mt_totalComments = totalComments,
                                   mt_totalShares = totalShares,
                                   mt_avgEngagementRate = avgEngagement,
                                   mt_postsPerDay =
                                     (if days > 0
                                      then js_div (real_of_int totalPosts) (real_of_int days)
                                      else Some 0) \<rparr>,
                               an_recentPosts =
                                 map (\<lambda>post. \<lparr> ap_id = p_id post,
                                                ap_caption = p_caption post,
                                                ap_publishedAt = p_publishedAt post,
                                                ap_viewsCount = p_viewsCount post,
                                                ap_likesCount = p_likesCount post,
                                                ap_engagementRate = p_engagementRate post \<rparr>)
                                   (slice posts 0 10) \<rparr>))))"

section \<open>UserService\<close>

record CreateProfileData =
  cp_id :: string
  cp_email :: string
  cp_fullName :: "string option"
  cp_avatarUrl :: "string option"
  cp_timezone :: "string option"
  cp_preferredLanguage :: "string option"
  cp_businessName :: "string option"
  cp_businessType :: "string option"

text \<open>
  Profiles are unique in their identifier and in their email address (both are keys of
  \<open>findUnique\<close>), so creating a profile with either taken is a unique-constraint violation.
\<close>

definition userService_createProfile ::
  "env \<Rightarrow> CreateProfileData \<Rightarrow> store \<Rightarrow> (exn + Profile) \<times> store" where
  "userService_createProfile e d s =
     (if findUnique pf_id (profiles s) (cp_id d) \<noteq> None
         \<or> findUnique pf_email (profiles s) (cp_email d) \<noteq> None
      then (Inl (PrismaClientKnownRequestError ''P2002''), s)
      else
        (let r = \<lparr> pf_id = cp_id d,
                   pf_email = cp_email d,
                   pf_fullName = cp_fullName d,
                   pf_avatarUrl = cp_avatarUrl d,
                   pf_timezone = cp_timezone d,
                   pf_preferredLanguage = cp_preferredLanguage d,
                   pf_businessName = cp_businessName d,
                   pf_businessType = cp_businessType d,
                   pf_isActive = env_profileActive e,
                   pf_createdAt = env_now e,
                   pf_updatedAt = env_now e \<rparr>
         in (Inr r, s\<lparr>profiles := profiles s @ [r]\<rparr>)))"

definition userService_findProfileByEmail :: "store \<Rightarrow> string \<Rightarrow> Profile option" where
  "userService_findProfileByEmail s email = findUnique pf_email (profiles s) email"

section \<open>Controllers\<close>

text \<open>
  A handler that writes takes the store and returns its result with the new store; a
  failure keeps the writes made before it. \<open>and_then\<close> runs the next step on success and
  stops at the first exception.
\<close>

definition and_then ::
  "(exn + 'a) \<times> store \<Rightarrow> ('a \<Rightarrow> store \<Rightarrow> (exn + 'b) \<times> store) \<Rightarrow> (exn + 'b) \<times> store" where
  "and_then m f = (case m of (Inl err, s1) \<Rightarrow> (Inl err, s1) | (Inr r, s1) \<Rightarrow> f r s1)"

text \<open>
  \<open>catch (error) { if (error.code === code) throw replacement; throw error; }\<close>: only a
  store error carries a code.
\<close>

definition catch_code :: "string \<Rightarrow> exn \<Rightarrow> (exn + 'a) \<times> store \<Rightarrow> (exn + 'a) \<times> store" where
  "catch_code code replacement m =
     (case m of
        (Inl err, s1) \<Rightarrow>
          (Inl (if err = PrismaClientKnownRequestError code then replacement else err), s1)
      | (Inr r, s1) \<Rightarrow> (Inr r, s1))"

subsection \<open>Paginated responses\<close>

record PaginationDto =
  pg_page :: "int option"
  pg_limit :: "int option"
  pg_search :: "string option"

record PaginationMetaDto =
  pm_page :: int
  pm_limit :: int
  pm_total :: int
  pm_totalPages :: js_number
  pm_hasNext :: bool
  pm_hasPrev :: bool

record 'a PaginatedResponseDto =
  pr_data :: "'a list"
  pr_meta :: PaginationMetaDto

definition new_PaginatedResponseDto ::
  "'a list \<Rightarrow> int \<Rightarrow> int \<Rightarrow> int \<Rightarrow> 'a PaginatedResponseDto" where
  "new_PaginatedResponseDto rows n page limit =
     (let totalPages = math_ceil_div n limit
      in \<lparr> pr_data = rows,
           pr_meta = \<lparr> pm_page = page,
                       pm_limit = limit,
                       pm_total = n,
                       pm_totalPages = totalPages,
                       pm_hasNext = js_less page totalPages,
                       pm_hasPrev = (page > 1) \<rparr> \<rparr>)"

subsection \<open>SeriesController\<close>

record SeriesStatsDto =
  ss_totalVideosGenerated :: int
  ss_totalViews :: int
  ss_totalLikes :: int
  ss_avgEngagementRate :: real

record RecentVideoDto =
  rv_id :: string
  rv_title :: string
  rv_status :: string
  rv_createdAt :: int

text \<open>
  The series response: the row, its statistics and its recent videos. The template of a
  series is left out; no handler modelled here reads it.
\<close>

record SeriesResponseDto =
  rs_series :: UserSeries
  rs_stats :: SeriesStatsDto
  rs_recentVideos :: "RecentVideoDto list"

definition series_stats :: "UserSeries \<Rightarrow> SeriesStatsDto" where
  "series_stats r =
     \<lparr> ss_totalVideosGenerated = sr_totalVideosGenerated r,
       ss_totalViews = sr_totalViews r,
       ss_totalLikes = sr_totalLikes r,
       ss_avgEngagementRate = 0 \<rparr>"

definition recent_video :: "Video \<Rightarrow> RecentVideoDto" where
  "recent_video v =
     \<lparr> rv_id = v_id v, rv_title = v_title v, rv_status = v_status v,
       rv_createdAt = v_createdAt v \<rparr>"

definition seriesController_getUserSeries ::
  "string \<Rightarrow> PaginationDto \<Rightarrow> bool option \<Rightarrow> store \<Rightarrow> SeriesResponseDto PaginatedResponseDto" where
  "seriesController_getUserSeries userId dto isActive s =
     (let series = seriesService_getUserSeries s userId;
          byActive = (case isActive of
                        None \<Rightarrow> series
                      | Some b \<Rightarrow> filter (\<lambda>r. sr_isActive r = b) series);
          filteredSeries =
            (if truthy (pg_search dto)
             then filter (\<lambda>r. str_includes (toLowerCase (sr_name r))
                                 (toLowerCase (the (pg_search dto)))
                             \<or> (case sr_description r of
                                   None \<Rightarrow> False
                                 | Some d \<Rightarrow> str_includes (toLowerCase d)
                                               (toLowerCase (the (pg_search dto)))))
                    byActive
             else byActive);
          page = num_or (pg_page dto) 1;
          limit = num_or (pg_limit dto) 10;
          startIndex = (page - 1) * limit;
          endIndex = startIndex + limit;
          paginatedSeries = slice filteredSeries startIndex endIndex;
          responseData =
            map (\<lambda>r. \<lparr> rs_series = r,
                        rs_stats = series_stats r,
                        rs_recentVideos = map recent_video (take 5 (series_videos s (sr_id r))) \<rparr>)
              paginatedSeries
      in new_PaginatedResponseDto responseData (int (length filteredSeries)) page limit)"

definition seriesController_getSeriesById ::
  "string \<Rightarrow> string \<Rightarrow> store \<Rightarrow> exn + SeriesResponseDto" where
  "seriesController_getSeriesById userId i s =
     (case seriesService_getSeriesById s i of
        None \<Rightarrow> Inl (NotFoundException ''Series not found'')
      | Some series \<Rightarrow>
          if sr_userId series \<noteq> userId
          then Inl (ForbiddenException ''You can only access your own series'')
          else Inr \<lparr> rs_series = series,
                     rs_stats = series_stats series,
                     rs_recentVideos = map recent_video (series_videos s i) \<rparr>)"

definition seriesController_updateSeries ::
  "env \<Rightarrow> string \<Rightarrow> string \<Rightarrow> UpdateSeriesDto \<Rightarrow> store \<Rightarrow> (exn + SeriesResponseDto) \<times> store" where
  "seriesController_updateSeries e userId i dto s =
     (case seriesService_getSeriesById s i of
        None \<Rightarrow> (Inl (NotFoundException ''Series not found''), s)
      | Some existingSeries \<Rightarrow>
          if sr_userId existingSeries \<noteq> userId
          then (Inl (ForbiddenException ''You can only update your own series''), s)
          else catch_code ''P2025'' (NotFoundException ''Series not found'')
                 (and_then (seriesService_updateSeries e i dto s)
                    (\<lambda>updatedSeries s1.
                       (Inr \<lparr> rs_series = updatedSeries,
                              rs_stats = series_stats updatedSeries,
                              rs_recentVideos = [] \<rparr>, s1))))"

definition seriesController_toggleSeriesStatus ::
  "env \<Rightarrow> string \<Rightarrow> string \<Rightarrow> bool \<Rightarrow> store \<Rightarrow> (exn + SeriesResponseDto) \<times> store" where
  "seriesController_toggleSeriesStatus e userId i isActive s =
     (case seriesService_getSeriesById s i of
        None \<Rightarrow> (Inl (NotFoundException ''Series not found''), s)
      | Some existingSeries \<Rightarrow>
          if sr_userId existingSeries \<noteq> userId
          then (Inl (ForbiddenException ''You can only modify your own series''), s)
          else and_then (seriesService_toggleSeriesStatus e i isActive s)
                 (\<lambda>updatedSeries s1.
                    (Inr \<lparr> rs_series = updatedSeries,
                           rs_stats = series_stats updatedSeries,
                           rs_recentVideos = [] \<rparr>, s1)))"

definition seriesController_deleteSeries ::
  "string \<Rightarrow> string \<Rightarrow> store \<Rightarrow> (exn + unit) \<times> store" where
  "seriesController_deleteSeries userId i s =
     (case seriesService_getSeriesById s i of
        None \<Rightarrow> (Inl (NotFoundException ''Series not found''), s)
      | Some existingSeries \<Rightarrow>
          if sr_userId existingSeries \<noteq> userId
          then (Inl (ForbiddenException ''You can only delete your own series''), s)
          else catch_code ''P2025'' (NotFoundException ''Series not found'')
                 (and_then (seriesService_deleteSeries i s) (\<lambda>deleted s1. (Inr (), s1))))"

record SeriesAnalyticsDto =
  sa_id :: string
  sa_name :: string
  sa_createdAt :: int
  sa_isActive :: bool
  sa_totalVideos :: int
  sa_totalViews :: int
  sa_totalLikes :: int
  sa_avgEngagementRate :: real
  sa_avgGenerationTime :: real
  sa_videoPerformance :: "RecentVideoDto list"
  sa_dailyViews :: "int list"
  sa_dailyLikes :: "int list"
  sa_engagementTrend :: "real list"

definition seriesController_getSeriesAnalytics ::
  "string \<Rightarrow> string \<Rightarrow> int \<Rightarrow> store \<Rightarrow> exn + SeriesAnalyticsDto" where
  "seriesController_getSeriesAnalytics userId i days s =
     (case seriesService_getSeriesById s i of
        None \<Rightarrow> Inl (NotFoundException ''Series not found'')
      | Some series \<Rightarrow>
          if sr_userId series \<noteq> userId
          then Inl (ForbiddenException ''You can only access your own series analytics'')
          else Inr \<lparr> sa_id = sr_id series,
                     sa_name = sr_name series,
                     sa_createdAt = sr_createdAt series,
                     sa_isActive = sr_isActive series,
                     sa_totalVideos = int (length (series_videos s i)),
                     sa_totalViews = sr_totalViews series,
                     sa_totalLikes = sr_totalLikes series,
                     sa_avgEngagementRate = 0,
                     sa_avgGenerationTime = 0,
                     sa_videoPerformance = map recent_video (series_videos s i),
                     sa_dailyViews = [],
                     sa_dailyLikes = [],
                     sa_engagementTrend = [] \<rparr>)"

subsection \<open>VideosController\<close>

record VideoSocialPostDto =
  sp_id :: string
  sp_platform :: string
  sp_status :: string
  sp_scheduledFor :: "int option"
  sp_publishedAt :: "int option"
  sp_viewsCount :: int
  sp_likesCount :: int

record VideoResponseDto =
  vr_video :: Video
  vr_series :: "string \<times> string"
  vr_socialPosts :: "VideoSocialPostDto list"

definition social_post_dto :: "SocialPost \<Rightarrow> VideoSocialPostDto" where
  "social_post_dto post =
     \<lparr> sp_id = p_id post,
       sp_platform = p_platform post,
       sp_status = p_status post,
       sp_scheduledFor = p_scheduledFor post,
       sp_publishedAt = p_publishedAt post,
       sp_viewsCount = p_viewsCount post,
       sp_likesCount = p_likesCount post \<rparr>"

text \<open>
  \<open>plainToClass(VideoResponseDto, ...)\<close>. The transform declared on \<open>scheduledFor\<close> and
  \<open>publishedAt\<close> of a post calls \<open>toISOString\<close> on the value whenever the value is
  present; the handlers have turned these dates into strings before, and a string has no
  such method, so a post that carries either of them raises a \<open>TypeError\<close>. The other
  transforms run on the dates and numbers of the video row and do not raise.
\<close>

definition plainToClass_VideoResponseDto :: "VideoResponseDto \<Rightarrow> exn + VideoResponseDto" where
  "plainToClass_VideoResponseDto response =
     (if list_ex (\<lambda>post. sp_scheduledFor post \<noteq> None \<or> sp_publishedAt post \<noteq> None)
           (vr_socialPosts response)
      then Inl TypeError
      else Inr response)"

text \<open>
  The response built from a fetched video. Reading the posts of a missing video, or the
  identifier of a missing series relation, is a \<open>TypeError\<close>.
\<close>

definition video_response :: "store \<Rightarrow> Video option \<Rightarrow> exn + VideoResponseDto" where
  "video_response s found =
     (case found of
        None \<Rightarrow> Inl TypeError
      | Some video \<Rightarrow>
          (case video_series s video of
             None \<Rightarrow> Inl TypeError
           | Some series \<Rightarrow>
               plainToClass_VideoResponseDto
                 \<lparr> vr_video = video,
                   vr_series = (sr_id series, sr_name series),
                   vr_socialPosts = map social_post_dto (video_socialPosts s video) \<rparr>))"

record GenerateVideoDto =
  gv_seriesId :: string
  gv_topic :: "string option"
  gv_generationSettings :: "json_obj option"
  gv_priority :: "string option"

text \<open>The \<open>videoData\<close> object that \<open>generateVideo\<close> builds for an active series.\<close>

definition generate_videoData :: "string \<Rightarrow> GenerateVideoDto \<Rightarrow> UserSeries \<Rightarrow> CreateVideoData" where
  "generate_videoData userId dto series =
     (let videoTitle =
            str_or (gv_topic dto)
              (sr_name series @ '' Episode ''
                 @ num_to_string (sr_totalVideosGenerated series + 1));
          prompt =
            str_or (sr_customPrompt series)
              ''Generate engaging video content based on series theme''
      in \<lparr> cv_userId = userId,
           cv_seriesId = gv_seriesId dto,
           cv_title = videoTitle,
           cv_description =
             Some (''Auto-generated video for '' @ sr_name series @ '' series''),
           cv_script = ''[AI Generated Script - Processing...]'',
           cv_promptUsed = prompt,
           cv_tags = Some [sr_name series, ''ai-generated''],
           cv_generationSettings =
             Some (spread
                     (spread
                        (spread
                           (spread (or_empty (sr_visualStyle series))
                              (or_empty (sr_voiceSettings series)))
                           (or_empty (sr_musicSettings series)))
                        [(''duration'', JNum (sr_videoDuration series)),
                         (''style'', (case sr_contentStyle series of
                                        None \<Rightarrow> JNull
                                      | Some c \<Rightarrow> JStr c)),
                         (''useTrending'', JBool (sr_useTrendingTopics series)),
                         (''priority'', JStr (str_or (gv_priority dto) ''normal''))])
                     (or_empty (gv_generationSettings dto))) \<rparr>)"

definition videosController_generateVideo ::
  "env \<Rightarrow> string \<Rightarrow> GenerateVideoDto \<Rightarrow> store \<Rightarrow> (exn + VideoResponseDto) \<times> store" where
  "videosController_generateVideo e userId dto s =
     (case seriesService_getSeriesById s (gv_seriesId dto) of
        None \<Rightarrow> (Inl (BadRequestException ''Series not found''), s)
      | Some series \<Rightarrow>
          if sr_userId series \<noteq> userId
          then (Inl (ForbiddenException ''You can only generate videos in your own series''), s)
          else if \<not> sr_isActive series
          then (Inl (BadRequestException ''Cannot generate videos for inactive series''), s)
          else
            and_then (videoService_createVideo e (generate_videoData userId dto series) s)
              (\<lambda>video s1.
                 and_then (videoService_updateVideoStatus e (v_id video) ''queued'' (Some 0) None s1)
                   (\<lambda>queued s2.
                      and_then
                        (seriesService_updateSeriesStats e (gv_seriesId dto)
                           \<lparr> st_totalVideosGenerated = Some (sr_totalVideosGenerated series + 1),
                             st_totalViews = None,
                             st_totalLikes = None \<rparr> s2)
                        (\<lambda>updated s3.
                           (plainToClass_VideoResponseDto
                              \<lparr> vr_video = video\<lparr> v_status := ''queued'',
                                                    v_generationProgress := 0 \<rparr>,
                                vr_series = (sr_id series, sr_name series),
                                vr_socialPosts = [] \<rparr>, s3)))))"

text \<open>The responses of a list of videos; the first failing one fails the request.\<close>

fun video_responses :: "store \<Rightarrow> Video list \<Rightarrow> exn + VideoResponseDto list" where
  "video_responses s [] = Inr []"
| "video_responses s (v # vs) =
     (case video_response s (Some v) of
        Inl err \<Rightarrow> Inl err
      | Inr r \<Rightarrow> (case video_responses s vs of Inl err \<Rightarrow> Inl err | Inr rs \<Rightarrow> Inr (r # rs)))"

definition videosController_getUserVideos ::
  "string \<Rightarrow> PaginationDto \<Rightarrow> string option \<Rightarrow> string option \<Rightarrow> store
     \<Rightarrow> exn + VideoResponseDto PaginatedResponseDto" where
  "videosController_getUserVideos userId dto status seriesId s =
     (let page = num_or (pg_page dto) 1;
          limit = num_or (pg_limit dto) 10;
          offset = (page - 1) * limit
      in case videoService_getUserVideos s userId
                \<lparr> vq_status = status, vq_seriesId = seriesId,
                  vq_limit = Some limit, vq_offset = Some offset \<rparr> of
           Inl err \<Rightarrow> Inl err
         | Inr found \<Rightarrow>
             (let filteredVideos =
                    (if truthy (pg_search dto)
                     then filter
                            (\<lambda>video.
                               str_includes (toLowerCase (v_title video))
                                 (toLowerCase (the (pg_search dto)))
                               \<or> (case v_description video of
                                     None \<Rightarrow> False
                                   | Some d \<Rightarrow> str_includes (toLowerCase d)
                                                 (toLowerCase (the (pg_search dto))))
                               \<or> list_ex (\<lambda>tag. str_includes (toLowerCase tag)
                                                   (toLowerCase (the (pg_search dto))))
                                    (v_tags video))
                            found
                     else found)
              in case video_responses s filteredVideos of
                   Inl err \<Rightarrow> Inl err
                 | Inr responseData \<Rightarrow>
                     Inr (new_PaginatedResponseDto responseData
                            (int (length filteredVideos)) page limit)))"

definition videosController_getVideoById ::
  "string \<Rightarrow> string \<Rightarrow> store \<Rightarrow> exn + VideoResponseDto" where
  "videosController_getVideoById userId i s =
     (case videoService_findVideoById s i of
        None \<Rightarrow> Inl (NotFoundException ''Video not found'')
      | Some video \<Rightarrow>
          if v_userId video \<noteq> userId
          then Inl (ForbiddenException ''You can only access your own videos'')
          else video_response s (Some video))"

text \<open>
  The body of a video update. An optional field is absent or present; for the description,
  which the handler copies whenever it is not \<open>undefined\<close>, a present null is told apart
  (\<open>Some None\<close>). For the other fields null and absent are treated alike by the handler's
  truthiness tests; a null progress is not represented.
\<close>

record UpdateVideoDto =
  uv_seriesId :: "string option"
  uv_title :: "string option"
  uv_description :: "string option option"
  uv_script :: "string option"
  uv_tags :: "string list option"
  uv_customPrompt :: "string option"
  uv_generationSettings :: "json_obj option"
  uv_status :: "string option"
  uv_generationProgress :: "int option"
  uv_errorMessage :: "string option"

text \<open>
  The \<open>updateData\<close> object the handler fills from the body: \<open>title\<close> and \<open>script\<close> are
  copied when truthy, \<open>description\<close> when defined, \<open>tags\<close> and \<open>generationSettings\<close> when
  present.
\<close>

definition updateData_of :: "UpdateVideoDto \<Rightarrow> VideoContentData" where
  "updateData_of dto =
     \<lparr> vc_title = (if truthy (uv_title dto) then uv_title dto else None),
       vc_description = uv_description dto,
       vc_script = (if truthy (uv_script dto) then uv_script dto else None),
       vc_tags = uv_tags dto,
       vc_generationSettings = uv_generationSettings dto \<rparr>"

text \<open>\<open>Object.keys(updateData).length > 0\<close>.\<close>

definition has_keys :: "VideoContentData \<Rightarrow> bool" where
  "has_keys u =
     (vc_title u \<noteq> None \<or> vc_description u \<noteq> None \<or> vc_script u \<noteq> None
      \<or> vc_tags u \<noteq> None \<or> vc_generationSettings u \<noteq> None)"

definition videosController_updateVideo ::
  "env \<Rightarrow> string \<Rightarrow> string \<Rightarrow> UpdateVideoDto \<Rightarrow> store \<Rightarrow> (exn + VideoResponseDto) \<times> store" where
  "videosController_updateVideo e userId i dto s =
     (case videoService_findVideoById s i of
        None \<Rightarrow> (Inl (NotFoundException ''Video not found''), s)
      | Some existingVideo \<Rightarrow>
          if v_userId existingVideo \<noteq> userId
          then (Inl (ForbiddenException ''You can only update your own videos''), s)
          else catch_code ''P2025'' (NotFoundException ''Video not found'')
                 (and_then
                    (if truthy (uv_status dto)
                     then and_then
                            (videoService_updateVideoStatus e i (the (uv_status dto))
                               (uv_generationProgress dto) (uv_errorMessage dto) s)
                            (\<lambda>written s1. (Inr (), s1))
                     else (Inr (), s))
                    (\<lambda>u1 s1.
                       and_then
                         (if has_keys (updateData_of dto)
                          then and_then
                                 (videoService_updateVideoContent e i (updateData_of dto) s1)
                                 (\<lambda>written s2. (Inr (), s2))
                          else (Inr (), s1))
                         (\<lambda>u2 s2. (video_response s2 (videoService_findVideoById s2 i), s2)))))"

definition videosController_deleteVideo ::
  "string \<Rightarrow> string \<Rightarrow> store \<Rightarrow> (exn + unit) \<times> store" where
  "videosController_deleteVideo userId i s =
     (case videoService_findVideoById s i of
        None \<Rightarrow> (Inl (NotFoundException ''Video not found''), s)
      | Some existingVideo \<Rightarrow>
          if v_userId existingVideo \<noteq> userId
          then (Inl (ForbiddenException ''You can only delete your own videos''), s)
          else catch_code ''P2025'' (NotFoundException ''Video not found'')
                 (and_then (videoService_deleteVideo i s) (\<lambda>deleted s1. (Inr (), s1))))"

subsection \<open>SocialController\<close>

record RecentStats =
  rc_totalPosts :: int
  rc_totalViews :: int
  rc_totalLikes :: int
  rc_avgEngagementRate :: "real option"

record SocialAccountResponseDto =
  ar_account :: SocialAccount
  ar_recentStats :: RecentStats

definition zero_stats :: RecentStats where
  "zero_stats =
     \<lparr> rc_totalPosts = 0, rc_totalViews = 0, rc_totalLikes = 0,
       rc_avgEngagementRate = Some 0 \<rparr>"

text \<open>
  The body of a connect request; the expiry is carried as the instant that the handler's
  \<open>new Date(...)\<close> reads from it.
\<close>

record ConnectSocialAccountDto =
  cs_platform :: string
  cs_platformUserId :: string
  cs_username :: string
  cs_displayName :: "string option"
  cs_accessToken :: string
  cs_refreshToken :: "string option"
  cs_tokenExpiresAt :: "int option"
  cs_followerCount :: "int option"
  cs_profileImageUrl :: "string option"
  cs_isVerified :: "bool option"
  cs_autoPost :: "bool option"

definition socialController_connectSocialAccount ::
  "env \<Rightarrow> string \<Rightarrow> ConnectSocialAccountDto \<Rightarrow> store
     \<Rightarrow> (exn + SocialAccountResponseDto) \<times> store" where
  "socialController_connectSocialAccount e userId dto s =
     (case socialAccountService_getSocialAccountByPlatform s userId (cs_platform dto) of
        Some existingAccount \<Rightarrow>
          (Inl (ConflictException
                  (cs_platform dto
                     @ '' account is already connected. Disconnect the existing one first.'')), s)
      | None \<Rightarrow>
          catch_code ''P2002'' (ConflictException ''This social account is already connected'')
            (and_then
               (socialAccountService_connectAccount e
                  \<lparr> ca_userId = userId,
                    ca_platform = cs_platform dto,
                    ca_platformUserId = cs_platformUserId dto,
                    ca_username = cs_username dto,
                    ca_displayName = cs_displayName dto,
                    ca_accessToken = cs_accessToken dto,
                    ca_refreshToken = cs_refreshToken dto,
                    ca_tokenExpiresAt = cs_tokenExpiresAt dto,
                    ca_followerCount = cs_followerCount dto,
                    ca_profileImageUrl = cs_profileImageUrl dto,
                    ca_isVerified = cs_isVerified dto,
                    ca_autoPost = cs_autoPost dto \<rparr> s)
               (\<lambda>socialAccount s1.
                  (Inr \<lparr> ar_account = socialAccount, ar_recentStats = zero_stats \<rparr>, s1))))"

text \<open>\<open>posts.reduce((sum, post) => sum + Number(post.engagementRate), 0)\<close>.\<close>

definition reduce_rate :: "SocialPost list \<Rightarrow> real" where
  "reduce_rate posts = foldl (\<lambda>sum post. sum + p_engagementRate post) 0 posts"

definition socialController_getSocialAccountById ::
  "string \<Rightarrow> string \<Rightarrow> store \<Rightarrow> exn + SocialAccountResponseDto" where
  "socialController_getSocialAccountById userId i s =
     (case socialAccountService_getSocialAccountById s i of
        None \<Rightarrow> Inl (NotFoundException ''Social account not found'')
      | Some account \<Rightarrow>
          if a_userId account \<noteq> userId
          then Inl (ForbiddenException ''You can only access your own social accounts'')
          else
            (let recentPosts = account_recentPosts s i
             in Inr \<lparr> ar_account = account,
                      ar_recentStats =
                        \<lparr> rc_totalPosts = int (length recentPosts),
                          rc_totalViews = reduce_sum p_viewsCount recentPosts,
                          rc_totalLikes = reduce_sum p_likesCount recentPosts,
                          rc_avgEngagementRate =
                            (if length recentPosts > 0
                             then js_div (reduce_rate recentPosts) (real (length recentPosts))
                             else Some 0) \<rparr> \<rparr>))"

definition socialController_updateSocialAccount ::
  "env \<Rightarrow> string \<Rightarrow> string \<Rightarrow> UpdateSocialAccountDto \<Rightarrow> store
     \<Rightarrow> (exn + SocialAccountResponseDto) \<times> store" where
  "socialController_updateSocialAccount e userId i dto s =
     (case socialAccountService_getSocialAccountById s i of
        None \<Rightarrow> (Inl (NotFoundException ''Social account not found''), s)
      | Some existingAccount \<Rightarrow>
          if a_userId existingAccount \<noteq> userId
          then (Inl (ForbiddenException ''You can only update your own social accounts''), s)
          else catch_code ''P2025'' (NotFoundException ''Social account not found'')
                 (and_then (socialAccountService_updateSocialAccount e i dto s)
                    (\<lambda>updatedAccount s1.
                       (Inr \<lparr> ar_account = updatedAccount, ar_recentStats = zero_stats \<rparr>, s1))))"

definition socialController_toggleAutoPost ::
  "string \<Rightarrow> string \<Rightarrow> bool \<Rightarrow> store \<Rightarrow> (exn + SocialAccountResponseDto) \<times> store" where
  "socialController_toggleAutoPost userId i autoPost s =
     (case socialAccountService_getSocialAccountById s i of
        None \<Rightarrow> (Inl (NotFoundException ''Social account not found''), s)
      | Some existingAccount \<Rightarrow>
          if a_userId existingAccount \<noteq> userId
          then (Inl (ForbiddenException ''You can only modify your own social accounts''), s)
          else and_then (socialAccountService_toggleAutoPost i autoPost s)
                 (\<lambda>updatedAccount s1.
                    (Inr \<lparr> ar_account = updatedAccount, ar_recentStats = zero_stats \<rparr>, s1)))"

definition socialController_syncSocialAccount ::
  "env \<Rightarrow> string \<Rightarrow> string \<Rightarrow> store \<Rightarrow> (exn + SocialAccountResponseDto) \<times> store" where
  "socialController_syncSocialAccount e userId i s =
     (case socialAccountService_getSocialAccountById s i of
        None \<Rightarrow> (Inl (NotFoundException ''Social account not found''), s)
      | Some existingAccount \<Rightarrow>
          if a_userId existingAccount \<noteq> userId
          then (Inl (ForbiddenException ''You can only sync your own social accounts''), s)
          else and_then
                 (socialAccountService_updateAccountMetrics e i
                    \<lparr> am_followerCount = Some (a_followerCount existingAccount),
                      am_profileImageUrl = Some (a_profileImageUrl existingAccount),
                      am_isVerified = Some (a_isVerified existingAccount) \<rparr> s)
                 (\<lambda>updatedAccount s1.
                    (Inr \<lparr> ar_account = updatedAccount, ar_recentStats = zero_stats \<rparr>, s1)))"

definition socialController_disconnectSocialAccount ::
  "string \<Rightarrow> string \<Rightarrow> store \<Rightarrow> (exn + unit) \<times> store" where
  "socialController_disconnectSocialAccount userId i s =
     (case socialAccountService_getSocialAccountById s i of
        None \<Rightarrow> (Inl (NotFoundException ''Social account not found''), s)
      | Some existingAccount \<Rightarrow>
          if a_userId existingAccount \<noteq> userId
          then (Inl (ForbiddenException ''You can only disconnect your own social accounts''), s)
          else catch_code ''P2025'' (NotFoundException ''Social account not found'')
                 (and_then (socialAccountService_disconnectAccount i s)
                    (\<lambda>deleted s1. (Inr (), s1))))"

definition socialController_getSocialAccountAnalytics ::
  "env \<Rightarrow> string \<Rightarrow> string \<Rightarrow> int \<Rightarrow> store \<Rightarrow> exn + AccountAnalytics" where
  "socialController_getSocialAccountAnalytics e userId i days s =
     (case socialAccountService_getSocialAccountById s i of
        None \<Rightarrow> Inl (NotFoundException ''Social account not found'')
      | Some existingAccount \<Rightarrow>
          if a_userId existingAccount \<noteq> userId
          then Inl (ForbiddenException ''You can only access your own social account analytics'')
          else (case socialAccountService_getAccountAnalytics e s i days of
                  Inl err \<Rightarrow> Inl err
                | Inr None \<Rightarrow> Inl (NotFoundException ''Analytics data not found'')
                | Inr (Some analytics) \<Rightarrow> Inr analytics))"

subsection \<open>UsersController\<close>

record CreateProfileDto =
  cd_email :: string
  cd_fullName :: "string option"
  cd_avatarUrl :: "string option"
  cd_timezone :: "string option"
  cd_preferredLanguage :: "string option"
  cd_businessName :: "string option"
  cd_businessType :: "string option"

record ProfileResponseDto =
  pr_profile :: Profile
  pr_videosCreated :: int
  pr_seriesCount :: int
  pr_storageUsed :: int

definition usersController_createProfile ::
  "env \<Rightarrow> CreateProfileDto \<Rightarrow> store \<Rightarrow> (exn + ProfileResponseDto) \<times> store" where
  "usersController_createProfile e dto s =
     catch_code ''P2002'' (BadRequestException ''Profile with this email already exists'')
       (and_then
          (userService_createProfile e
             \<lparr> cp_id = env_newId e,
               cp_email = cd_email dto,
               cp_fullName = cd_fullName dto,
               cp_avatarUrl = cd_avatarUrl dto,
               cp_timezone = cd_timezone dto,
               cp_preferredLanguage = cd_preferredLanguage dto,
               cp_businessName = cd_businessName dto,
               cp_businessType = cd_businessType dto \<rparr> s)
          (\<lambda>profile s1.
             (Inr \<lparr> pr_profile = profile, pr_videosCreated = 0, pr_seriesCount = 0,
                    pr_storageUsed = 0 \<rparr>, s1)))"

section \<open>A sample store\<close>

text \<open>
  The start date on a server whose local time is UTC: every day has 24 hours of
  milliseconds, and an instant more than 8640000000000000 milliseconds from the epoch is
  no date.
\<close>

definition utc_startDate :: "int \<Rightarrow> int \<Rightarrow> js_date" where
  "utc_startDate now days =
     (if - 8640000000000000 \<le> now - days * 86400000
         \<and> now - days * 86400000 \<le> 8640000000000000
      then Valid (now - days * 86400000)
      else InvalidDate)"

text \<open>
  User \<open>u1\<close> owns an active fresh series \<open>s1\<close>, an inactive series \<open>s2\<close>, a queued
  video \<open>v1\<close> and a connected YouTube account \<open>a1\<close> with two posts that are not yet
  scheduled or published; user \<open>u2\<close> owns nothing.
\<close>

definition env0 :: env where
  "env0 =
     \<lparr> env_now = 1000000000, env_startDate = utc_startDate 1000000000,
       env_newId = ''n1'', env_videoStatus = ''draft'',
       env_videoProgress = 0, env_accountActive = True, env_accountAutoPost = True,
       env_profileActive = True \<rparr>"

definition profile1 :: Profile where
  "profile1 =
     \<lparr> pf_id = ''u1'', pf_email = ''ada@example.com'', pf_fullName = Some ''Ada'',
       pf_avatarUrl = None, pf_timezone = None, pf_preferredLanguage = None,
       pf_businessName = None, pf_businessType = None, pf_isActive = True,
       pf_createdAt = 10, pf_updatedAt = 10 \<rparr>"

definition series1 :: UserSeries where
  "series1 =
     \<lparr> sr_id = ''s1'', sr_userId = ''u1'', sr_name = ''Daily Tips'',
       sr_description = Some ''Short tips'', sr_customPrompt = None,
       sr_visualStyle = Some [(''theme'', JStr ''dark'')], sr_voiceSettings = None,
       sr_musicSettings = None, sr_postingFrequency = 3, sr_videoDuration = 60,
       sr_contentStyle = Some ''engaging'', sr_useTrendingTopics = True, sr_isActive = True,
       sr_totalVideosGenerated = 0, sr_totalViews = 0, sr_totalLikes = 0,
       sr_createdAt = 100, sr_updatedAt = 100 \<rparr>"

definition series2 :: UserSeries where
  "series2 =
     series1\<lparr> sr_id := ''s2'', sr_name := ''Paused'', sr_isActive := False,
               sr_totalVideosGenerated := 4, sr_totalViews := 70, sr_totalLikes := 9 \<rparr>"

definition video1 :: Video where
  "video1 =
     \<lparr> v_id = ''v1'', v_userId = ''u1'', v_seriesId = ''s1'', v_title = ''Intro'',
       v_description = None, v_script = ''[AI Generated Script - Processing...]'',
       v_promptUsed = ''p'', v_tags = [''Daily Tips''], v_generationSettings = [],
       v_status = ''queued'', v_generationProgress = 0, v_errorMessage = None,
       v_createdAt = 200, v_updatedAt = 200 \<rparr>"

definition account1 :: SocialAccount where
  "account1 =
     \<lparr> a_id = ''a1'', a_userId = ''u1'', a_platform = ''youtube'',
       a_platformUserId = ''UC1'', a_username = ''ada'', a_displayName = None,
       a_accessToken = ''t'', a_refreshToken = None, a_tokenExpiresAt = None,
       a_followerCount = Some 12, a_profileImageUrl = None, a_isVerified = None,
       a_isActive = True, a_autoPost = True, a_connectedAt = 300, a_lastSyncAt = None \<rparr>"

definition post1 :: SocialPost where
  "post1 =
     \<lparr> p_id = ''p1'', p_socialAccountId = ''a1'', p_videoId = ''v1'',
       p_platform = ''youtube'', p_status = ''posted'', p_caption = None,
       p_viewsCount = 200, p_likesCount = 6, p_commentsCount = 3, p_sharesCount = 1,
       p_engagementRate = 5, p_scheduledFor = None, p_publishedAt = None,
       p_createdAt = 900000000 \<rparr>"

definition post2 :: SocialPost where
  "post2 =
     post1\<lparr> p_id := ''p2'', p_viewsCount := 0, p_likesCount := 0, p_commentsCount := 0,
             p_sharesCount := 0, p_engagementRate := 0, p_createdAt := 999500000 \<rparr>"

definition store0 :: store where
  "store0 =
     \<lparr> profiles = [profile1], userSeries = [series1, series2], videos = [video1],
       socialAccounts = [account1], socialPosts = [post1, post2] \<rparr>"

text \<open>Request bodies that supply no field.\<close>

definition no_series_fields :: UpdateSeriesDto where
  "no_series_fields =
     \<lparr> us_name = None, us_description = None, us_customPrompt = None, us_visualStyle = None,
       us_voiceSettings = None, us_musicSettings = None, us_postingFrequency = None,
       us_videoDuration = None, us_contentStyle = None, us_useTrendingTopics = None,
       us_isActive = None \<rparr>"

definition no_video_fields :: UpdateVideoDto where
  "no_video_fields =
     \<lparr> uv_seriesId = None, uv_title = None, uv_description = None, uv_script = None,
       uv_tags = None, uv_customPrompt = None, uv_generationSettings = None,
       uv_status = None, uv_generationProgress = None, uv_errorMessage = None \<rparr>"

definition no_account_fields :: UpdateSocialAccountDto where
  "no_account_fields =
     \<lparr> ua_platform = None, ua_platformUserId = None, ua_username = None,
       ua_displayName = None, ua_accessToken = None, ua_refreshToken = None,
       ua_tokenExpiresAt = None, ua_followerCount = None, ua_profileImageUrl = None,
       ua_isVerified = None, ua_autoPost = None, ua_isActive = None \<rparr>"

text \<open>A connect request for a TikTok account.\<close>

definition tiktok_dto :: ConnectSocialAccountDto where
  "tiktok_dto =
     \<lparr> cs_platform = ''tiktok'', cs_platformUserId = ''T1'', cs_username = ''bob'',
       cs_displayName = None, cs_accessToken = ''t2'', cs_refreshToken = None,
       cs_tokenExpiresAt = None, cs_followerCount = None, cs_profileImageUrl = None,
       cs_isVerified = None, cs_autoPost = None \<rparr>"

text \<open>A list request for the first page, one item per page, searching for \<open>TIPS\<close>.\<close>

definition first_page :: PaginationDto where
  "first_page = \<lparr> pg_page = Some 1, pg_limit = Some 1, pg_search = Some ''TIPS'' \<rparr>"

text \<open>
  Video updates that carry a status with a progress, only a progress, only an error
  message, only an empty title, and only a title.
\<close>

definition status_and_progress :: UpdateVideoDto where
  "status_and_progress =
     no_video_fields\<lparr> uv_status := Some ''processing'', uv_generationProgress := Some 40 \<rparr>"

definition progress_only :: UpdateVideoDto where
  "progress_only = no_video_fields\<lparr> uv_generationProgress := Some 50 \<rparr>"

definition error_only :: UpdateVideoDto where
  "error_only = no_video_fields\<lparr> uv_errorMessage := Some ''render failed'' \<rparr>"

definition empty_title_only :: UpdateVideoDto where
  "empty_title_only = no_video_fields\<lparr> uv_title := Some [] \<rparr>"

definition title_only :: UpdateVideoDto where
  "title_only = no_video_fields\<lparr> uv_title := Some ''Better title'' \<rparr>"

text \<open>A profile request with the email address of the profile of \<open>u1\<close>.\<close>

definition duplicate_profile :: CreateProfileDto where
  "duplicate_profile =
     \<lparr> cd_email = ''ada@example.com'', cd_fullName = None, cd_avatarUrl = None,
       cd_timezone = None, cd_preferredLanguage = None, cd_businessName = None,
       cd_businessType = None \<rparr>"

section \<open>Properties of the store primitives\<close>

text \<open>After an update by key, the row found under the key is the updated row.\<close>

lemma findUnique_map_same:
  "findUnique key rows i = Some r \<Longrightarrow> (\<And>x. key (f x) = key x) \<Longrightarrow>
   findUnique key (map (\<lambda>x. if key x = i then f x else x) rows) i = Some (f r)"
  unfolding findUnique_def by (induction rows) (auto split: if_splits)

section \<open>Series statistics\<close>

text \<open>
  C4. \<open>updateSeriesStats\<close> on an existing series, called without \<open>totalVideosGenerated\<close>,
  succeeds and stores the prior generated count plus one; \<open>totalViews\<close> and \<open>totalLikes\<close>
  keep their prior values unless the call supplies them. Calling it a second time adds one
  again, so the operation is not idempotent.
\<close>

theorem updateSeriesStats_increments:
  assumes found: "seriesService_getSeriesById s i = Some cur"
    and omitted: "st_totalVideosGenerated stats = None"
  shows "\<exists>r s'. seriesService_updateSeriesStats e i stats s = (Inr r, s')
           \<and> seriesService_getSeriesById s' i = Some r
           \<and> sr_totalVideosGenerated r = sr_totalVideosGenerated cur + 1
           \<and> sr_totalViews r = (case st_totalViews stats of Some n \<Rightarrow> n | None \<Rightarrow> sr_totalViews cur)
           \<and> sr_totalLikes r = (case st_totalLikes stats of Some n \<Rightarrow> n | None \<Rightarrow> sr_totalLikes cur)
           \<and> (\<exists>r2 s2. seriesService_updateSeriesStats e2 i stats s' = (Inr r2, s2)
                 \<and> seriesService_getSeriesById s2 i = Some r2
                 \<and> sr_totalVideosGenerated r2 = sr_totalVideosGenerated cur + 2
                 \<and> sr_totalVideosGenerated r2 \<noteq> sr_totalVideosGenerated r)"
proof -
  let ?f = "\<lambda>(e::env) c r. r\<lparr> sr_totalVideosGenerated := sr_totalVideosGenerated c + 1,
                  sr_totalViews := (case st_totalViews stats of Some n \<Rightarrow> n | None \<Rightarrow> sr_totalViews c),
                  sr_totalLikes := (case st_totalLikes stats of Some n \<Rightarrow> n | None \<Rightarrow> sr_totalLikes c),
                  sr_updatedAt := env_now e \<rparr>"
  let ?rows = "\<lambda>e c rows. map (\<lambda>x. if sr_id x = i then ?f e c x else x) rows"
  have f1: "findUnique sr_id (userSeries s) i = Some cur"
    using found by (simp add: seriesService_getSeriesById_def)
  let ?s' = "s\<lparr>userSeries := ?rows e cur (userSeries s)\<rparr>"
  let ?r = "?f e cur cur"
  have step1: "seriesService_updateSeriesStats e i stats s = (Inr ?r, ?s')"
    using f1 omitted by (simp add: seriesService_updateSeriesStats_def prisma_update_def)
  have f2: "findUnique sr_id (userSeries ?s') i = Some ?r"
    using findUnique_map_same [OF f1, of "?f e cur"] by simp
  let ?s2 = "?s'\<lparr>userSeries := ?rows e2 ?r (userSeries ?s')\<rparr>"
  let ?r2 = "?f e2 ?r ?r"
  have step2: "seriesService_updateSeriesStats e2 i stats ?s' = (Inr ?r2, ?s2)"
    using f2 omitted by (simp add: seriesService_updateSeriesStats_def prisma_update_def)
  have f3: "findUnique sr_id (userSeries ?s2) i = Some ?r2"
    using findUnique_map_same [OF f2, of "?f e2 ?r"] by simp
  have g1: "seriesService_getSeriesById ?s' i = Some ?r"
    using f2 by (simp add: seriesService_getSeriesById_def)
  have g2: "seriesService_getSeriesById ?s2 i = Some ?r2"
    using f3 by (simp add: seriesService_getSeriesById_def)
  have vals: "sr_totalVideosGenerated ?r = sr_totalVideosGenerated cur + 1"
    "sr_totalViews ?r = (case st_totalViews stats of Some n \<Rightarrow> n | None \<Rightarrow> sr_totalViews cur)"
    "sr_totalLikes ?r = (case st_totalLikes stats of Some n \<Rightarrow> n | None \<Rightarrow> sr_totalLikes cur)"
    "sr_totalVideosGenerated ?r2 = sr_totalVideosGenerated cur + 2"
    "sr_totalVideosGenerated ?r2 \<noteq> sr_totalVideosGenerated ?r"
    by simp_all
  show ?thesis
    using step1 step2 g1 g2 vals by blast
qed

theorem updateSeriesStats_increments_witness:
  "seriesService_getSeriesById store0 ''s2'' = Some series2
   \<and> st_totalVideosGenerated \<lparr>st_totalVideosGenerated = None, st_totalViews = Some 75, st_totalLikes = None\<rparr> = None
   \<and> (\<exists>r s'. seriesService_updateSeriesStats env0 ''s2''
                  \<lparr>st_totalVideosGenerated = None, st_totalViews = Some 75, st_totalLikes = None\<rparr> store0
                = (Inr r, s')
           \<and> seriesService_getSeriesById s' ''s2'' = Some r
           \<and> sr_totalVideosGenerated r = 5 \<and> sr_totalViews r = 75 \<and> sr_totalLikes r = 9)"
proof -
  let ?stats = "\<lparr>st_totalVideosGenerated = None, st_totalViews = Some 75, st_totalLikes = None\<rparr>"
  have found: "seriesService_getSeriesById store0 ''s2'' = Some series2"
    by (simp add: seriesService_getSeriesById_def findUnique_def store0_def series1_def series2_def)
  have omitted: "st_totalVideosGenerated ?stats = None"
    by simp
  have vals: "sr_totalVideosGenerated series2 = 4" "sr_totalLikes series2 = 9"
    by (simp_all add: series2_def series1_def)
  from updateSeriesStats_increments [OF found omitted, of env0 env0] vals found
  show ?thesis
    by auto
qed

section \<open>The ownership guard\<close>

text \<open>
  C1. Every single-resource read or mutating handler of a series, a video or a social
  account (get by id, update, toggle, sync, delete, analytics) fails with
  \<open>NotFoundException\<close> (status 404) when no entity has the identifier, and with
  \<open>ForbiddenException\<close> (status 403) when the entity exists and its owner is not the
  caller, whatever the entity's other fields are (active or inactive); a mutating handler
  leaves the store as it was in both cases. The lookup decides first: an absent entity is
  reported as not found to every caller.
\<close>

theorem ownership_guard:
  "(seriesService_getSeriesById s i = None \<longrightarrow>
       seriesController_getSeriesById u i s = Inl (NotFoundException ''Series not found'')
     \<and> seriesController_updateSeries e u i sd s = (Inl (NotFoundException ''Series not found''), s)
     \<and> seriesController_toggleSeriesStatus e u i b s = (Inl (NotFoundException ''Series not found''), s)
     \<and> seriesController_deleteSeries u i s = (Inl (NotFoundException ''Series not found''), s)
     \<and> seriesController_getSeriesAnalytics u i days s = Inl (NotFoundException ''Series not found''))
   \<and> (seriesService_getSeriesById s js = Some sr \<and> sr_userId sr \<noteq> u \<longrightarrow>
       seriesController_getSeriesById u js s
         = Inl (ForbiddenException ''You can only access your own series'')
     \<and> seriesController_updateSeries e u js sd s
         = (Inl (ForbiddenException ''You can only update your own series''), s)
     \<and> seriesController_toggleSeriesStatus e u js b s
         = (Inl (ForbiddenException ''You can only modify your own series''), s)
     \<and> seriesController_deleteSeries u js s
         = (Inl (ForbiddenException ''You can only delete your own series''), s)
     \<and> seriesController_getSeriesAnalytics u js days s
         = Inl (ForbiddenException ''You can only access your own series analytics''))
   \<and> (videoService_findVideoById s i = None \<longrightarrow>
       videosController_getVideoById u i s = Inl (NotFoundException ''Video not found'')
     \<and> videosController_updateVideo e u i vd s = (Inl (NotFoundException ''Video not found''), s)
     \<and> videosController_deleteVideo u i s = (Inl (NotFoundException ''Video not found''), s))
   \<and> (videoService_findVideoById s jv = Some v \<and> v_userId v \<noteq> u \<longrightarrow>
       videosController_getVideoById u jv s
         = Inl (ForbiddenException ''You can only access your own videos'')
     \<and> videosController_updateVideo e u jv vd s
         = (Inl (ForbiddenException ''You can only update your own videos''), s)
     \<and> videosController_deleteVideo u jv s
         = (Inl (ForbiddenException ''You can only delete your own videos''), s))
   \<and> (socialAccountService_getSocialAccountById s i = None \<longrightarrow>
       socialController_getSocialAccountById u i s
         = Inl (NotFoundException ''Social account not found'')
     \<and> socialController_updateSocialAccount e u i ad s
         = (Inl (NotFoundException ''Social account not found''), s)
     \<and> socialController_toggleAutoPost u i b s
         = (Inl (NotFoundException ''Social account not found''), s)
     \<and> socialController_syncSocialAccount e u i s
         = (Inl (NotFoundException ''Social account not found''), s)
     \<and> socialController_disconnectSocialAccount u i s
         = (Inl (NotFoundException ''Social account not found''), s)
     \<and> socialController_getSocialAccountAnalytics e u i days s
         = Inl (NotFoundException ''Social account not found''))
   \<and> (socialAccountService_getSocialAccountById s ja = Some a \<and> a_userId a \<noteq> u \<longrightarrow>
       socialController_getSocialAccountById u ja s
         = Inl (ForbiddenException ''You can only access your own social accounts'')
     \<and> socialController_updateSocialAccount e u ja ad s
         = (Inl (ForbiddenException ''You can only update your own social accounts''), s)
     \<and> socialController_toggleAutoPost u ja b s
         = (Inl (ForbiddenException ''You can only modify your own social accounts''), s)
     \<and> socialController_syncSocialAccount e u ja s
         = (Inl (ForbiddenException ''You can only sync your own social accounts''), s)
     \<and> socialController_disconnectSocialAccount u ja s
         = (Inl (ForbiddenException ''You can only disconnect your own social accounts''), s)
     \<and> socialController_getSocialAccountAnalytics e u ja days s
         = Inl (ForbiddenException ''You can only access your own social account analytics''))
   \<and> catch_status (NotFoundException m) = 404 \<and> catch_status (ForbiddenException m) = 403"
  by (simp add: seriesController_getSeriesById_def seriesController_updateSeries_def
      seriesController_toggleSeriesStatus_def seriesController_deleteSeries_def
      seriesController_getSeriesAnalytics_def videosController_getVideoById_def
      videosController_updateVideo_def videosController_deleteVideo_def
      socialController_getSocialAccountById_def socialController_updateSocialAccount_def
      socialController_toggleAutoPost_def socialController_syncSocialAccount_def
      socialController_disconnectSocialAccount_def socialController_getSocialAccountAnalytics_def)

theorem ownership_guard_witness:
  "seriesService_getSeriesById store0 ''zz'' = None
   \<and> seriesService_getSeriesById store0 ''s2'' = Some series2
   \<and> sr_userId series2 \<noteq> ''u2'' \<and> \<not> sr_isActive series2
   \<and> videoService_findVideoById store0 ''zz'' = None
   \<and> videoService_findVideoById store0 ''v1'' = Some video1 \<and> v_userId video1 \<noteq> ''u2''
   \<and> socialAccountService_getSocialAccountById store0 ''zz'' = None
   \<and> socialAccountService_getSocialAccountById store0 ''a1'' = Some account1
   \<and> a_userId account1 \<noteq> ''u2''
   \<and> seriesController_getSeriesById ''u2'' ''zz'' store0
         = Inl (NotFoundException ''Series not found'')
   \<and> seriesController_getSeriesById ''u2'' ''s2'' store0
         = Inl (ForbiddenException ''You can only access your own series'')
   \<and> seriesController_deleteSeries ''u2'' ''s2'' store0
         = (Inl (ForbiddenException ''You can only delete your own series''), store0)
   \<and> videosController_updateVideo env0 ''u2'' ''zz'' no_video_fields store0
         = (Inl (NotFoundException ''Video not found''), store0)
   \<and> videosController_updateVideo env0 ''u2'' ''v1'' no_video_fields store0
         = (Inl (ForbiddenException ''You can only update your own videos''), store0)
   \<and> socialController_getSocialAccountAnalytics env0 ''u2'' ''zz'' 30 store0
         = Inl (NotFoundException ''Social account not found'')
   \<and> socialController_disconnectSocialAccount ''u2'' ''a1'' store0
         = (Inl (ForbiddenException ''You can only disconnect your own social accounts''), store0)"
proof -
  have absent:
    "seriesService_getSeriesById store0 ''zz'' = None"
    "videoService_findVideoById store0 ''zz'' = None"
    "socialAccountService_getSocialAccountById store0 ''zz'' = None"
    by (simp_all add: seriesService_getSeriesById_def videoService_findVideoById_def
        socialAccountService_getSocialAccountById_def findUnique_def store0_def
        series1_def series2_def video1_def account1_def)
  have present:
    "seriesService_getSeriesById store0 ''s2'' = Some series2"
    "videoService_findVideoById store0 ''v1'' = Some video1"
    "socialAccountService_getSocialAccountById store0 ''a1'' = Some account1"
    by (simp_all add: seriesService_getSeriesById_def videoService_findVideoById_def
        socialAccountService_getSocialAccountById_def findUnique_def store0_def
        series1_def series2_def video1_def account1_def)
  have foreign:
    "sr_userId series2 \<noteq> ''u2''" "\<not> sr_isActive series2"
    "v_userId video1 \<noteq> ''u2''" "a_userId account1 \<noteq> ''u2''"
    by (simp_all add: series1_def series2_def video1_def account1_def)
  from ownership_guard [where s = store0 and u = "''u2''" and i = "''zz''" and js = "''s2''"
      and sr = series2 and jv = "''v1''" and v = video1 and ja = "''a1''" and a = account1
      and e = env0 and sd = no_series_fields and vd = no_video_fields
      and ad = no_account_fields and b = True and days = 30 and m = "[]"]
    absent present foreign
  show ?thesis
    by simp
qed

section \<open>Video generation\<close>

text \<open>A row appended under a key that was free is the row found under that key.\<close>

lemma findUnique_append_absent:
  "findUnique key rows i = None \<Longrightarrow>
   findUnique key (rows @ [r]) i = (if key r = i then Some r else None)"
  unfolding findUnique_def by (induction rows) (auto split: if_splits)

text \<open>The video row that a generation request inserts and then queues.\<close>

lemma generateVideo_fresh:
  assumes found: "seriesService_getSeriesById s (gv_seriesId dto) = Some S"
    and owned: "sr_userId S = u"
    and active: "sr_isActive S"
    and fresh: "videoService_findVideoById s (env_newId e) = None"
  shows "\<exists>resp s' v S'.
           videosController_generateVideo e u dto s = (Inr resp, s')
         \<and> videoService_findVideoById s' (env_newId e) = Some v
         \<and> v_status v = ''queued'' \<and> v_generationProgress v = 0
         \<and> v_script v = ''[AI Generated Script - Processing...]''
         \<and> v_title v = cv_title (generate_videoData u dto S)
         \<and> v_userId v = u \<and> v_seriesId v = gv_seriesId dto
         \<and> vr_video resp = v\<lparr>v_updatedAt := env_now e\<rparr>
         \<and> length (videos s') = length (videos s) + 1
         \<and> seriesService_getSeriesById s' (gv_seriesId dto) = Some S'
         \<and> sr_totalVideosGenerated S' = sr_totalVideosGenerated S + 1
         \<and> sr_totalViews S' = sr_totalViews S \<and> sr_totalLikes S' = sr_totalLikes S"
proof -
  let ?d = "generate_videoData u dto S"
  let ?r = "\<lparr> v_id = env_newId e, v_userId = cv_userId ?d, v_seriesId = cv_seriesId ?d,
               v_title = cv_title ?d, v_description = cv_description ?d,
               v_script = cv_script ?d, v_promptUsed = cv_promptUsed ?d,
               v_tags = (case cv_tags ?d of None \<Rightarrow> [] | Some ts \<Rightarrow> ts),
               v_generationSettings = or_empty (cv_generationSettings ?d),
               v_status = env_videoStatus e, v_generationProgress = env_videoProgress e,
               v_errorMessage = None, v_createdAt = env_now e, v_updatedAt = env_now e \<rparr>"
  let ?s1 = "s\<lparr>videos := videos s @ [?r]\<rparr>"
  have f0: "findUnique v_id (videos s) (env_newId e) = None"
    using fresh by (simp add: videoService_findVideoById_def)
  have c: "videoService_createVideo e ?d s = (Inr ?r, ?s1)"
    using f0 by (simp add: videoService_createVideo_def prisma_create_def)
  let ?g = "\<lambda>r. r\<lparr> v_status := ''queued'', v_generationProgress := 0,
                     v_errorMessage := v_errorMessage r, v_updatedAt := env_now e \<rparr>"
  have f1: "findUnique v_id (videos ?s1) (env_newId e) = Some ?r"
    using findUnique_append_absent [OF f0, of ?r] by simp
  let ?s2 = "?s1\<lparr>videos := map (\<lambda>x. if v_id x = env_newId e then ?g x else x) (videos ?s1)\<rparr>"
  have u: "videoService_updateVideoStatus e (env_newId e) ''queued'' (Some 0) None ?s1
             = (Inr (?g ?r), ?s2)"
    using f1 by (simp add: videoService_updateVideoStatus_def prisma_update_def truthy_def)
  have f2: "findUnique v_id (videos ?s2) (env_newId e) = Some (?g ?r)"
    using findUnique_map_same [OF f1, of ?g] by simp
  have sf: "findUnique sr_id (userSeries ?s2) (gv_seriesId dto) = Some S"
    using found by (simp add: seriesService_getSeriesById_def)
  let ?h = "\<lambda>r. r\<lparr> sr_totalVideosGenerated := sr_totalVideosGenerated S + 1,
                     sr_totalViews := sr_totalViews S, sr_totalLikes := sr_totalLikes S,
                     sr_updatedAt := env_now e \<rparr>"
  let ?s3 = "?s2\<lparr>userSeries := map (\<lambda>x. if sr_id x = gv_seriesId dto then ?h x else x) (userSeries ?s2)\<rparr>"
  have st: "seriesService_updateSeriesStats e (gv_seriesId dto)
              \<lparr> st_totalVideosGenerated = Some (sr_totalVideosGenerated S + 1),
                st_totalViews = None, st_totalLikes = None \<rparr> ?s2 = (Inr (?h S), ?s3)"
    using sf by (simp add: seriesService_updateSeriesStats_def prisma_update_def)
  have f3: "findUnique sr_id (userSeries ?s3) (gv_seriesId dto) = Some (?h S)"
    using findUnique_map_same [OF sf, of ?h] by simp
  let ?resp = "\<lparr> vr_video = ?r\<lparr> v_status := ''queued'', v_generationProgress := 0 \<rparr>,
                  vr_series = (sr_id S, sr_name S), vr_socialPosts = [] \<rparr>"
  have run: "videosController_generateVideo e u dto s = (Inr ?resp, ?s3)"
    using found owned active c u st
    by (simp add: videosController_generateVideo_def and_then_def
        plainToClass_VideoResponseDto_def)
  have v3: "videoService_findVideoById ?s3 (env_newId e) = Some (?g ?r)"
    using f2 by (simp add: videoService_findVideoById_def)
  have s3: "seriesService_getSeriesById ?s3 (gv_seriesId dto) = Some (?h S)"
    using f3 by (simp add: seriesService_getSeriesById_def)
  have props: "v_status (?g ?r) = ''queued''" "v_generationProgress (?g ?r) = 0"
    "v_script (?g ?r) = ''[AI Generated Script - Processing...]''"
    "v_title (?g ?r) = cv_title ?d" "v_userId (?g ?r) = u" "v_seriesId (?g ?r) = gv_seriesId dto"
    "vr_video ?resp = (?g ?r)\<lparr>v_updatedAt := env_now e\<rparr>"
    "length (videos ?s3) = length (videos s) + 1"
    "sr_totalVideosGenerated (?h S) = sr_totalVideosGenerated S + 1"
    "sr_totalViews (?h S) = sr_totalViews S" "sr_totalLikes (?h S) = sr_totalLikes S"
    by (simp_all add: generate_videoData_def Let_def)
  show ?thesis
    using run v3 s3 props by blast
qed

lemma generateVideo_taken:
  assumes found: "seriesService_getSeriesById s (gv_seriesId dto) = Some S"
    and owned: "sr_userId S = u"
    and active: "sr_isActive S"
    and taken: "videoService_findVideoById s (env_newId e) = Some old"
  shows "videosController_generateVideo e u dto s
           = (Inl (PrismaClientKnownRequestError ''P2002''), s)"
  using assms
  by (simp add: videosController_generateVideo_def and_then_def videoService_createVideo_def
      prisma_create_def videoService_findVideoById_def)

text \<open>
  C2. A generation request whose series exists, belongs to the caller and is inactive
  fails with \<open>BadRequestException\<close> (status 400) and writes nothing: the store it
  returns is the store it was given, so no video row is created and the counters of the
  series are unchanged.
\<close>

theorem generateVideo_inactive:
  assumes found: "seriesService_getSeriesById s (gv_seriesId dto) = Some S"
    and owned: "sr_userId S = u"
    and inactive: "\<not> sr_isActive S"
  shows "videosController_generateVideo e u dto s
           = (Inl (BadRequestException ''Cannot generate videos for inactive series''), s)
         \<and> catch_status (BadRequestException ''Cannot generate videos for inactive series'') = 400
         \<and> videos (snd (videosController_generateVideo e u dto s)) = videos s
         \<and> seriesService_getSeriesById (snd (videosController_generateVideo e u dto s))
              (gv_seriesId dto) = Some S"
  using assms by (simp add: videosController_generateVideo_def)

theorem generateVideo_inactive_witness:
  "seriesService_getSeriesById store0 ''s2'' = Some series2
   \<and> sr_userId series2 = ''u1'' \<and> \<not> sr_isActive series2
   \<and> videosController_generateVideo env0 ''u1''
        \<lparr>gv_seriesId = ''s2'', gv_topic = None, gv_generationSettings = None, gv_priority = None\<rparr>
        store0
      = (Inl (BadRequestException ''Cannot generate videos for inactive series''), store0)"
proof -
  let ?dto = "\<lparr>gv_seriesId = ''s2'', gv_topic = None, gv_generationSettings = None,
                 gv_priority = None\<rparr>"
  have found: "seriesService_getSeriesById store0 (gv_seriesId ?dto) = Some series2"
    by (simp add: seriesService_getSeriesById_def findUnique_def store0_def series1_def series2_def)
  have owned: "sr_userId series2 = ''u1''" and inactive: "\<not> sr_isActive series2"
    by (simp_all add: series1_def series2_def)
  from generateVideo_inactive [OF found owned inactive, of env0] found owned inactive
  show ?thesis
    by simp
qed

text \<open>
  C3. A successful generation request against an active series \<open>S\<close> of the caller
  creates exactly one video, under the identifier the store generated: the stored video is
  \<open>queued\<close> with progress 0 and the placeholder script, the response shows the same video,
  the generated count of \<open>S\<close> is its prior value plus one, and when the request has no
  topic the title is the name of \<open>S\<close>, \<open>Episode\<close> and the prior count plus one.
\<close>

theorem generateVideo_queues:
  assumes found: "seriesService_getSeriesById s (gv_seriesId dto) = Some S"
    and owned: "sr_userId S = u"
    and active: "sr_isActive S"
    and ok: "videosController_generateVideo e u dto s = (Inr resp, s')"
  shows "\<exists>v S'.
           videoService_findVideoById s (env_newId e) = None
         \<and> videoService_findVideoById s' (env_newId e) = Some v
         \<and> length (videos s') = length (videos s) + 1
         \<and> v_status v = ''queued'' \<and> v_generationProgress v = 0
         \<and> v_script v = ''[AI Generated Script - Processing...]''
         \<and> v_userId v = u \<and> v_seriesId v = gv_seriesId dto
         \<and> vr_video resp = v\<lparr>v_updatedAt := env_now e\<rparr>
         \<and> seriesService_getSeriesById s' (gv_seriesId dto) = Some S'
         \<and> sr_totalVideosGenerated S' = sr_totalVideosGenerated S + 1
         \<and> (gv_topic dto = None \<longrightarrow>
               v_title v = sr_name S @ '' Episode ''
                             @ num_to_string (sr_totalVideosGenerated S + 1))"
proof (cases "videoService_findVideoById s (env_newId e)")
  case (Some old)
  from generateVideo_taken [OF found owned active Some] ok show ?thesis
    by simp
next
  case None
  from generateVideo_fresh [OF found owned active None]
  obtain resp0 s0 v S' where run: "videosController_generateVideo e u dto s = (Inr resp0, s0)"
    and v: "videoService_findVideoById s0 (env_newId e) = Some v"
      "v_status v = ''queued''" "v_generationProgress v = 0"
      "v_script v = ''[AI Generated Script - Processing...]''"
      "v_title v = cv_title (generate_videoData u dto S)"
      "v_userId v = u" "v_seriesId v = gv_seriesId dto"
      "vr_video resp0 = v\<lparr>v_updatedAt := env_now e\<rparr>"
      "length (videos s0) = length (videos s) + 1"
    and S': "seriesService_getSeriesById s0 (gv_seriesId dto) = Some S'"
      "sr_totalVideosGenerated S' = sr_totalVideosGenerated S + 1"
    by blast
  from run ok have same: "resp0 = resp" "s0 = s'"
    by simp_all
  have title: "gv_topic dto = None \<longrightarrow>
      cv_title (generate_videoData u dto S)
        = sr_name S @ '' Episode '' @ num_to_string (sr_totalVideosGenerated S + 1)"
    by (simp add: generate_videoData_def str_or_def truthy_def)
  show ?thesis
    using None v S' same title by auto
qed

theorem generateVideo_queues_witness:
  "seriesService_getSeriesById store0 ''s1'' = Some series1
   \<and> sr_userId series1 = ''u1'' \<and> sr_isActive series1 \<and> sr_totalVideosGenerated series1 = 0
   \<and> (\<exists>resp s' v S'.
         videosController_generateVideo env0 ''u1''
           \<lparr>gv_seriesId = ''s1'', gv_topic = None, gv_generationSettings = None,
             gv_priority = None\<rparr> store0 = (Inr resp, s')
       \<and> videoService_findVideoById s' ''n1'' = Some v
       \<and> v_status v = ''queued'' \<and> v_generationProgress v = 0
       \<and> v_title v = ''Daily Tips Episode 1''
       \<and> seriesService_getSeriesById s' ''s1'' = Some S'
       \<and> sr_totalVideosGenerated S' = 1)"
proof -
  let ?dto = "\<lparr>gv_seriesId = ''s1'', gv_topic = None, gv_generationSettings = None,
                 gv_priority = None\<rparr>"
  have found: "seriesService_getSeriesById store0 (gv_seriesId ?dto) = Some series1"
    by (simp add: seriesService_getSeriesById_def findUnique_def store0_def series1_def)
  have owned: "sr_userId series1 = ''u1''" and active: "sr_isActive series1"
    and fresh_series: "sr_totalVideosGenerated series1 = 0"
    and name: "sr_name series1 = ''Daily Tips''"
    by (simp_all add: series1_def)
  have fresh: "videoService_findVideoById store0 (env_newId env0) = None"
    by (simp add: videoService_findVideoById_def findUnique_def store0_def video1_def env0_def)
  from generateVideo_fresh [OF found owned active fresh]
  obtain resp s' where ok:
    "videosController_generateVideo env0 ''u1'' ?dto store0 = (Inr resp, s')"
    by blast
  have id: "env_newId env0 = ''n1''"
    by (simp add: env0_def)
  have one: "num_to_string (0 + 1) = ''1''"
    by (simp add: num_to_string_def)
  from generateVideo_queues [OF found owned active ok]
  show ?thesis
    using found owned active fresh_series name ok id one by auto
qed

section \<open>Connecting a social account\<close>

text \<open>
  C5. A connect request of a user who already has an active account on the same platform
  fails with \<open>ConflictException\<close> (status 409) and returns the store it was given: no
  account row is created and the existing connection is unchanged.
\<close>

theorem connect_conflict:
  assumes active: "\<exists>a \<in> set (socialAccounts s).
                     a_userId a = u \<and> a_platform a = cs_platform dto \<and> a_isActive a"
  shows "socialController_connectSocialAccount e u dto s
           = (Inl (ConflictException
                     (cs_platform dto
                        @ '' account is already connected. Disconnect the existing one first.'')), s)
         \<and> catch_status (ConflictException
                     (cs_platform dto
                        @ '' account is already connected. Disconnect the existing one first.'')) = 409
         \<and> socialAccounts (snd (socialController_connectSocialAccount e u dto s))
             = socialAccounts s"
proof -
  from active
  have "socialAccountService_getSocialAccountByPlatform s u (cs_platform dto) \<noteq> None"
    by (auto simp: socialAccountService_getSocialAccountByPlatform_def find_None_iff)
  then obtain existing
    where "socialAccountService_getSocialAccountByPlatform s u (cs_platform dto) = Some existing"
    by blast
  then show ?thesis
    by (simp add: socialController_connectSocialAccount_def)
qed

text \<open>
  The scenario of connecting twice: user \<open>u2\<close> connects a TikTok account, which succeeds,
  and connects TikTok again, which is refused and leaves the first connection in place.
\<close>

theorem connect_conflict_witness:
  "\<exists>first s1.
      socialController_connectSocialAccount env0 ''u2'' tiktok_dto store0 = (Inr first, s1)
    \<and> (\<exists>a \<in> set (socialAccounts s1).
          a_userId a = ''u2'' \<and> a_platform a = cs_platform tiktok_dto \<and> a_isActive a)
    \<and> socialController_connectSocialAccount (env0\<lparr>env_newId := ''n2''\<rparr>) ''u2'' tiktok_dto s1
        = (Inl (ConflictException
                  ''tiktok account is already connected. Disconnect the existing one first.''), s1)"
proof -
  let ?new = "\<lparr> a_id = ''n1'', a_userId = ''u2'', a_platform = ''tiktok'',
       a_platformUserId = ''T1'', a_username = ''bob'', a_displayName = None,
       a_accessToken = ''t2'', a_refreshToken = None, a_tokenExpiresAt = None,
       a_followerCount = None, a_profileImageUrl = None, a_isVerified = None,
       a_isActive = True, a_autoPost = True, a_connectedAt = 1000000000, a_lastSyncAt = None \<rparr>"
  let ?s1 = "store0\<lparr>socialAccounts := [account1, ?new]\<rparr>"
  have first: "socialController_connectSocialAccount env0 ''u2'' tiktok_dto store0
                 = (Inr \<lparr>ar_account = ?new, ar_recentStats = zero_stats\<rparr>, ?s1)"
    by (simp add: socialController_connectSocialAccount_def
        socialAccountService_getSocialAccountByPlatform_def
        socialAccountService_connectAccount_def prisma_create_def findUnique_def
        and_then_def catch_code_def override_def
        store0_def account1_def env0_def tiktok_dto_def)
  have active: "\<exists>a \<in> set (socialAccounts ?s1).
                  a_userId a = ''u2'' \<and> a_platform a = cs_platform tiktok_dto \<and> a_isActive a"
    by (simp add: tiktok_dto_def)
  have platform: "cs_platform tiktok_dto = ''tiktok''"
    by (simp add: tiktok_dto_def)
  from connect_conflict [OF active, of "env0\<lparr>env_newId := ''n2''\<rparr>"] first active platform
  show ?thesis
    by auto
qed

section \<open>Paginated lists\<close>

lemma ceil_div_bounds:
  fixes n limit :: int
  assumes "1 \<le> limit"
  shows "(\<lceil>real_of_int n / real_of_int limit\<rceil> - 1) * limit < n"
    and "n \<le> \<lceil>real_of_int n / real_of_int limit\<rceil> * limit"
proof -
  let ?q = "real_of_int n / real_of_int limit"
  have pos: "0 < real_of_int limit"
    using assms by simp
  have lower: "real_of_int \<lceil>?q\<rceil> - 1 < ?q"
    by linarith
  have "(real_of_int \<lceil>?q\<rceil> - 1) * real_of_int limit < ?q * real_of_int limit"
    using lower pos by (intro mult_strict_right_mono) simp_all
  moreover have scale: "?q * real_of_int limit = real_of_int n"
    using pos by simp
  ultimately have "(real_of_int \<lceil>?q\<rceil> - 1) * real_of_int limit < real_of_int n"
    by simp
  then have "real_of_int ((\<lceil>?q\<rceil> - 1) * limit) < real_of_int n"
    by simp
  then show "(\<lceil>?q\<rceil> - 1) * limit < n"
    by (simp only: of_int_less_iff)
  have upper: "?q \<le> real_of_int \<lceil>?q\<rceil>"
    by linarith
  have "?q * real_of_int limit \<le> real_of_int \<lceil>?q\<rceil> * real_of_int limit"
    using upper pos by (intro mult_right_mono) simp_all
  then have "real_of_int n \<le> real_of_int \<lceil>?q\<rceil> * real_of_int limit"
    using scale by simp
  then have "real_of_int n \<le> real_of_int (\<lceil>?q\<rceil> * limit)"
    by simp
  then show "n \<le> \<lceil>?q\<rceil> * limit"
    by (simp only: of_int_le_iff)
qed

lemma length_slice_window:
  assumes "1 \<le> limit"
  shows "int (length (slice xs start (start + limit))) \<le> limit"
  using assms by (auto simp: slice_def Let_def min_def max_def)

lemma length_video_responses:
  "video_responses s vs = Inr rs \<Longrightarrow> length rs = length vs"
  by (induction vs arbitrary: rs) (auto split: sum.splits)

lemma length_take_skip:
  assumes "0 \<le> n" and "take_skip n skip rows = Inr found"
  shows "int (length found) \<le> n"
  using assms by (auto simp: take_skip_def split: if_splits)

text \<open>
  C6. A paginated response built with \<open>limit \<ge> 1\<close> has \<open>totalPages\<close> equal to the
  ceiling of \<open>total / limit\<close>, which is the least number of pages of \<open>limit\<close> items
  that hold \<open>total\<close> items; \<open>hasNext\<close> is \<open>page < totalPages\<close> and \<open>hasPrev\<close> is
  \<open>page > 1\<close>. The two list handlers, of series and of videos, build their response
  this way from the effective page and limit of the request, and return at most \<open>limit\<close>
  items.
\<close>

theorem paginated_response:
  assumes limit: "1 \<le> limit"
  shows "pm_totalPages (pr_meta (new_PaginatedResponseDto rows n page limit))
           = Finite \<lceil>real_of_int n / real_of_int limit\<rceil>
       \<and> (\<lceil>real_of_int n / real_of_int limit\<rceil> - 1) * limit < n
       \<and> n \<le> \<lceil>real_of_int n / real_of_int limit\<rceil> * limit
       \<and> pm_hasNext (pr_meta (new_PaginatedResponseDto rows n page limit))
           = (page < \<lceil>real_of_int n / real_of_int limit\<rceil>)
       \<and> pm_hasPrev (pr_meta (new_PaginatedResponseDto rows n page limit)) = (page > 1)
       \<and> (num_or (pg_limit dto) 10 = limit \<longrightarrow>
             pr_meta (seriesController_getUserSeries u dto isActive s)
               = pr_meta (new_PaginatedResponseDto ([] :: unit list)
                            (pm_total (pr_meta (seriesController_getUserSeries u dto isActive s)))
                            (num_or (pg_page dto) 1) limit)
           \<and> int (length (pr_data (seriesController_getUserSeries u dto isActive s))) \<le> limit)
       \<and> (num_or (pg_limit dto) 10 = limit \<longrightarrow>
             (\<forall>r. videosController_getUserVideos u dto status seriesId s = Inr r \<longrightarrow>
                pr_meta r = pr_meta (new_PaginatedResponseDto ([] :: unit list)
                                       (pm_total (pr_meta r)) (num_or (pg_page dto) 1) limit)
              \<and> int (length (pr_data r)) \<le> limit))"
proof -
  have nonzero: "limit \<noteq> 0"
    using limit by simp
  have meta: "pm_totalPages (pr_meta (new_PaginatedResponseDto rows n page limit))
                = Finite \<lceil>real_of_int n / real_of_int limit\<rceil>"
    "pm_hasNext (pr_meta (new_PaginatedResponseDto rows n page limit))
       = (page < \<lceil>real_of_int n / real_of_int limit\<rceil>)"
    "pm_hasPrev (pr_meta (new_PaginatedResponseDto rows n page limit)) = (page > 1)"
    using nonzero by (simp_all add: new_PaginatedResponseDto_def math_ceil_div_def Let_def)
  have series_meta: "pr_meta (seriesController_getUserSeries u dto isActive s)
      = pr_meta (new_PaginatedResponseDto ([] :: unit list)
                   (pm_total (pr_meta (seriesController_getUserSeries u dto isActive s)))
                   (num_or (pg_page dto) 1) limit)"
    if "num_or (pg_limit dto) 10 = limit"
    using that
    by (simp add: seriesController_getUserSeries_def new_PaginatedResponseDto_def Let_def)
  have series_len:
    "int (length (pr_data (seriesController_getUserSeries u dto isActive s))) \<le> limit"
    if "num_or (pg_limit dto) 10 = limit"
    using that
    by (simp add: seriesController_getUserSeries_def new_PaginatedResponseDto_def Let_def
        length_slice_window [OF limit])
  have videos: "pr_meta r = pr_meta (new_PaginatedResponseDto ([] :: unit list)
                                       (pm_total (pr_meta r)) (num_or (pg_page dto) 1) limit)
                \<and> int (length (pr_data r)) \<le> limit"
    if eq: "num_or (pg_limit dto) 10 = limit"
      and run: "videosController_getUserVideos u dto status seriesId s = Inr r" for r
  proof -
    let ?page = "num_or (pg_page dto) 1"
    let ?q = "\<lparr> vq_status = status, vq_seriesId = seriesId,
                  vq_limit = Some limit, vq_offset = Some ((?page - 1) * limit) \<rparr>"
    from run eq obtain found where found: "videoService_getUserVideos s u ?q = Inr found"
      by (auto simp: videosController_getUserVideos_def Let_def split: sum.splits)
    let ?filtered = "(if truthy (pg_search dto)
                     then filter
                            (\<lambda>video.
                               str_includes (toLowerCase (v_title video))
                                 (toLowerCase (the (pg_search dto)))
                               \<or> (case v_description video of
                                     None \<Rightarrow> False
                                   | Some d \<Rightarrow> str_includes (toLowerCase d)
                                                 (toLowerCase (the (pg_search dto))))
                               \<or> list_ex (\<lambda>tag. str_includes (toLowerCase tag)
                                                   (toLowerCase (the (pg_search dto))))
                                    (v_tags video))
                            found
                     else found)"
    from run eq found obtain responseData
      where resp: "video_responses s ?filtered = Inr responseData"
        and r: "r = new_PaginatedResponseDto responseData (int (length ?filtered)) ?page limit"
      by (auto simp: videosController_getUserVideos_def Let_def split: sum.splits)
    have taken: "int (length found) \<le> limit"
    proof -
      have "num_or (Some limit) 20 = limit"
        using nonzero by (simp add: num_or_def)
      with found have "take_skip limit (num_or (Some ((?page - 1) * limit)) 0)
          (order_desc v_createdAt
            (filter (\<lambda>v. v_userId v = u
                     \<and> (truthy status \<longrightarrow> v_status v = the status)
                     \<and> (truthy seriesId \<longrightarrow> v_seriesId v = the seriesId))
              (videos s))) = Inr found"
        by (simp add: videoService_getUserVideos_def)
      moreover have "0 \<le> limit"
        using limit by simp
      ultimately show ?thesis
        by (rule length_take_skip [rotated])
    qed
    have "length ?filtered \<le> length found"
      by simp
    with taken length_video_responses [OF resp] have "int (length responseData) \<le> limit"
      by linarith
    then show ?thesis
      using r by (simp add: new_PaginatedResponseDto_def Let_def)
  qed
  show ?thesis
    using meta ceil_div_bounds [OF limit, of n] series_meta series_len videos
    by blast
qed

theorem paginated_response_witness:
  "(1::int) \<le> 1 \<and> num_or (pg_limit first_page) 10 = 1
   \<and> pm_totalPages (pr_meta (new_PaginatedResponseDto [()] 2 1 1)) = Finite 2
   \<and> pm_hasNext (pr_meta (new_PaginatedResponseDto [()] 2 1 1))
   \<and> \<not> pm_hasPrev (pr_meta (new_PaginatedResponseDto [()] 2 1 1))
   \<and> pm_total (pr_meta (seriesController_getUserSeries ''u1'' first_page None store0)) = 2
   \<and> pm_totalPages (pr_meta (seriesController_getUserSeries ''u1'' first_page None store0))
        = Finite 2
   \<and> int (length (pr_data (seriesController_getUserSeries ''u1'' first_page None store0))) \<le> 1
   \<and> (\<exists>r. videosController_getUserVideos ''u1'' first_page None None store0 = Inr r
          \<and> pm_totalPages (pr_meta r) = Finite 1 \<and> \<not> pm_hasNext (pr_meta r)
          \<and> int (length (pr_data r)) \<le> 1)"
proof -
  have limit: "(1::int) \<le> 1"
    by simp
  have eff: "num_or (pg_limit first_page) 10 = 1" "num_or (pg_page first_page) 1 = 1"
    by (simp_all add: first_page_def num_or_def)
  have ceil: "\<lceil>real_of_int 2 / real_of_int 1\<rceil> = (2::int)"
    "\<lceil>real_of_int 1 / real_of_int 1\<rceil> = (1::int)"
    by simp_all
  have total: "pm_total (pr_meta (seriesController_getUserSeries ''u1'' first_page None store0)) = 2"
    by (simp add: seriesController_getUserSeries_def seriesService_getUserSeries_def
        new_PaginatedResponseDto_def order_desc_def Let_def truthy_def first_page_def
        toLowerCase_def lower_char_def store0_def series1_def series2_def)
  have found: "videoService_getUserVideos store0 ''u1''
                 \<lparr> vq_status = None, vq_seriesId = None, vq_limit = Some 1, vq_offset = Some 0 \<rparr>
               = Inr [video1]"
    by (simp add: videoService_getUserVideos_def take_skip_def num_or_def order_desc_def
        truthy_def store0_def video1_def)
  have one: "video_responses store0 [video1]
               = Inr [\<lparr> vr_video = video1, vr_series = (''s1'', ''Daily Tips''),
                        vr_socialPosts = [social_post_dto post1, social_post_dto post2] \<rparr>]"
    by (simp add: video_response_def plainToClass_VideoResponseDto_def social_post_dto_def
        video_series_def video_socialPosts_def findUnique_def
        store0_def video1_def series1_def series2_def post1_def post2_def)
  have run: "\<exists>r. videosController_getUserVideos ''u1'' first_page None None store0 = Inr r
               \<and> pm_total (pr_meta r) = 1"
    using found one
    by (simp add: videosController_getUserVideos_def Let_def num_or_def first_page_def
        truthy_def toLowerCase_def lower_char_def video1_def new_PaginatedResponseDto_def)
  then obtain r where r: "videosController_getUserVideos ''u1'' first_page None None store0 = Inr r"
    and rt: "pm_total (pr_meta r) = 1"
    by blast
  from paginated_response [OF limit, of "[()]" 2 1 first_page "''u1''" None store0 None None]
    eff ceil total r rt
  show ?thesis
    by (auto simp: new_PaginatedResponseDto_def Let_def math_ceil_div_def)
qed

section \<open>Account analytics\<close>

lemma foldl_add_sum_list:
  "foldl (\<lambda>sum post. sum + field post) acc posts = acc + sum_list (map field posts)"
  for field :: "'r \<Rightarrow> int"
  by (induction posts arbitrary: acc) simp_all

lemma sum_list_insort_key:
  "sum_list (map field (insort_key k x ys)) = field x + sum_list (map field ys)"
  for field :: "'r \<Rightarrow> int" and k :: "'r \<Rightarrow> int"
  by (induction ys) simp_all

lemma sum_list_sort_key:
  "sum_list (map field (sort_key k xs)) = sum_list (map field xs)"
  for field :: "'r \<Rightarrow> int" and k :: "'r \<Rightarrow> int"
  by (induction xs) (simp_all add: sum_list_insort_key)

lemma reduce_sum_order_desc:
  "reduce_sum field (order_desc k xs) = sum_list (map field xs)"
  for field :: "'r \<Rightarrow> int"
  by (simp add: reduce_sum_def order_desc_def foldl_add_sum_list rev_map [symmetric]
      sum_list_rev sum_list_sort_key)

lemma length_order_desc: "length (order_desc k xs) = length xs"
  by (simp add: order_desc_def)

lemma order_desc_Nil: "order_desc k xs = [] \<longleftrightarrow> xs = []"
  using length_order_desc [of k xs] by (metis length_0_conv)

lemma sum_list_positive_nonempty:
  "0 < sum_list (map field posts) \<Longrightarrow> posts \<noteq> []"
  for field :: "'r \<Rightarrow> int"
  by auto

text \<open>
  With a valid start date, the call on an existing account returns metrics whose totals
  are the sums over the account's posts created at or after that date.
\<close>

lemma analytics_valid:
  assumes found: "socialAccountService_getSocialAccountById s i = Some a"
    and days: "0 < days"
    and valid: "env_startDate e days = Valid startDate"
  shows "\<exists>r. socialAccountService_getAccountAnalytics e s i days = Inr (Some r)
     \<and> mt_totalPosts (an_metrics r)
         = int (length (filter (\<lambda>p. p_socialAccountId p = i \<and> startDate \<le> p_createdAt p)
                          (socialPosts s)))
     \<and> mt_totalViews (an_metrics r)
         = sum_list (map p_viewsCount
                       (filter (\<lambda>p. p_socialAccountId p = i \<and> startDate \<le> p_createdAt p)
                          (socialPosts s)))
     \<and> mt_totalLikes (an_metrics r)
         = sum_list (map p_likesCount
                       (filter (\<lambda>p. p_socialAccountId p = i \<and> startDate \<le> p_createdAt p)
                          (socialPosts s)))
     \<and> mt_totalComments (an_metrics r)
         = sum_list (map p_commentsCount
                       (filter (\<lambda>p. p_socialAccountId p = i \<and> startDate \<le> p_createdAt p)
                          (socialPosts s)))
     \<and> mt_totalShares (an_metrics r)
         = sum_list (map p_sharesCount
                       (filter (\<lambda>p. p_socialAccountId p = i \<and> startDate \<le> p_createdAt p)
                          (socialPosts s)))
     \<and> mt_avgEngagementRate (an_metrics r)
         = Some (if mt_totalViews (an_metrics r) > 0
                 then real_of_int (mt_totalLikes (an_metrics r) + mt_totalComments (an_metrics r)
                                     + mt_totalShares (an_metrics r))
                        / real_of_int (mt_totalViews (an_metrics r)) * 100
                 else 0)
     \<and> mt_postsPerDay (an_metrics r)
         = Some (real_of_int (mt_totalPosts (an_metrics r)) / real_of_int days)"
proof -
  let ?posts = "filter (\<lambda>p. p_socialAccountId p = i \<and> startDate \<le> p_createdAt p)
                  (socialPosts s)"
  have row: "findUnique a_id (socialAccounts s) i = Some a"
    using found by (simp add: socialAccountService_getSocialAccountById_def)
  have nonempty: "?posts \<noteq> []" if "0 < sum_list (map p_viewsCount ?posts)"
    using sum_list_positive_nonempty [OF that] by simp
  show ?thesis
    using row days valid nonempty
    by (simp add: socialAccountService_getAccountAnalytics_def Let_def js_div_def
        reduce_sum_order_desc length_order_desc order_desc_Nil)
qed

text \<open>
  C7. Let \<open>getAccountAnalytics\<close> be called on an existing account with a window of
  \<open>days > 0\<close>. When the start of the window is a valid date, the call returns metrics
  whose totals are the sums over the account's posts created at or after that start.
  Whenever the call returns metrics, \<open>avgEngagementRate\<close> is the finite number
  \<open>(totalLikes + totalComments + totalShares) / totalViews * 100\<close> when \<open>totalViews\<close> is
  positive and 0 otherwise (the division is never by zero), and \<open>postsPerDay\<close> is the
  finite number \<open>totalPosts / days\<close>. Numbers are exact here; the rounding of
  floating-point division is not represented.
\<close>

theorem analytics_rates:
  assumes found: "socialAccountService_getSocialAccountById s i = Some a"
    and days: "0 < days"
  shows "(\<forall>startDate. env_startDate e days = Valid startDate \<longrightarrow>
            (\<exists>r. socialAccountService_getAccountAnalytics e s i days = Inr (Some r)
               \<and> mt_totalPosts (an_metrics r)
                   = int (length (filter (\<lambda>p. p_socialAccountId p = i
                                            \<and> startDate \<le> p_createdAt p)
                                    (socialPosts s)))
               \<and> mt_totalViews (an_metrics r)
                   = sum_list (map p_viewsCount
                                 (filter (\<lambda>p. p_socialAccountId p = i
                                            \<and> startDate \<le> p_createdAt p)
                                    (socialPosts s)))
               \<and> mt_totalLikes (an_metrics r)
                   = sum_list (map p_likesCount
                                 (filter (\<lambda>p. p_socialAccountId p = i
                                            \<and> startDate \<le> p_createdAt p)
                                    (socialPosts s)))
               \<and> mt_totalComments (an_metrics r)
                   = sum_list (map p_commentsCount
                                 (filter (\<lambda>p. p_socialAccountId p = i
                                            \<and> startDate \<le> p_createdAt p)
                                    (socialPosts s)))
               \<and> mt_totalShares (an_metrics r)
                   = sum_list (map p_sharesCount
                                 (filter (\<lambda>p. p_socialAccountId p = i
                                            \<and> startDate \<le> p_createdAt p)
                                    (socialPosts s)))))
       \<and> (\<forall>r. socialAccountService_getAccountAnalytics e s i days = Inr (Some r) \<longrightarrow>
             mt_avgEngagementRate (an_metrics r)
               = Some (if mt_totalViews (an_metrics r) > 0
                       then real_of_int (mt_totalLikes (an_metrics r)
                                           + mt_totalComments (an_metrics r)
                                           + mt_totalShares (an_metrics r))
                              / real_of_int (mt_totalViews (an_metrics r)) * 100
                       else 0)
           \<and> mt_postsPerDay (an_metrics r)
               = Some (real_of_int (mt_totalPosts (an_metrics r)) / real_of_int days))"
proof (intro conjI allI impI)
  fix startDate
  assume valid: "env_startDate e days = Valid startDate"
  from analytics_valid [OF found days valid]
  show "\<exists>r. socialAccountService_getAccountAnalytics e s i days = Inr (Some r)
     \<and> mt_totalPosts (an_metrics r)
         = int (length (filter (\<lambda>p. p_socialAccountId p = i \<and> startDate \<le> p_createdAt p)
                          (socialPosts s)))
     \<and> mt_totalViews (an_metrics r)
         = sum_list (map p_viewsCount
                       (filter (\<lambda>p. p_socialAccountId p = i \<and> startDate \<le> p_createdAt p)
                          (socialPosts s)))
     \<and> mt_totalLikes (an_metrics r)
         = sum_list (map p_likesCount
                       (filter (\<lambda>p. p_socialAccountId p = i \<and> startDate \<le> p_createdAt p)
                          (socialPosts s)))
     \<and> mt_totalComments (an_metrics r)
         = sum_list (map p_commentsCount
                       (filter (\<lambda>p. p_socialAccountId p = i \<and> startDate \<le> p_createdAt p)
                          (socialPosts s)))
     \<and> mt_totalShares (an_metrics r)
         = sum_list (map p_sharesCount
                       (filter (\<lambda>p. p_socialAccountId p = i \<and> startDate \<le> p_createdAt p)
                          (socialPosts s)))"
    by blast
next
  fix r
  assume returned: "socialAccountService_getAccountAnalytics e s i days = Inr (Some r)"
  then obtain startDate where valid: "env_startDate e days = Valid startDate"
    by (cases "env_startDate e days")
      (simp_all add: socialAccountService_getAccountAnalytics_def)
  from analytics_valid [OF found days valid] returned
  have "mt_avgEngagementRate (an_metrics r)
               = Some (if mt_totalViews (an_metrics r) > 0
                       then real_of_int (mt_totalLikes (an_metrics r)
                                           + mt_totalComments (an_metrics r)
                                           + mt_totalShares (an_metrics r))
                              / real_of_int (mt_totalViews (an_metrics r)) * 100
                       else 0)
           \<and> mt_postsPerDay (an_metrics r)
               = Some (real_of_int (mt_totalPosts (an_metrics r)) / real_of_int days)"
    by auto
  then show "mt_avgEngagementRate (an_metrics r)
               = Some (if mt_totalViews (an_metrics r) > 0
                       then real_of_int (mt_totalLikes (an_metrics r)
                                           + mt_totalComments (an_metrics r)
                                           + mt_totalShares (an_metrics r))
                              / real_of_int (mt_totalViews (an_metrics r)) * 100
                       else 0)"
    and "mt_postsPerDay (an_metrics r)
               = Some (real_of_int (mt_totalPosts (an_metrics r)) / real_of_int days)"
    by simp_all
qed

text \<open>
  On the sample store, a window of 30 days holds both posts of the account and a window of
  one day only the later one, which has no views.
\<close>

theorem analytics_rates_witness:
  "socialAccountService_getSocialAccountById store0 ''a1'' = Some account1
   \<and> (0::int) < 30 \<and> (0::int) < 1
   \<and> env_startDate env0 30 = Valid (- 1592000000)
   \<and> env_startDate env0 1 = Valid 913600000
   \<and> (\<exists>r. socialAccountService_getAccountAnalytics env0 store0 ''a1'' 30 = Inr (Some r)
         \<and> mt_totalPosts (an_metrics r) = 2 \<and> mt_totalViews (an_metrics r) = 200
         \<and> mt_avgEngagementRate (an_metrics r) = Some 5
         \<and> mt_postsPerDay (an_metrics r) = Some (1 / 15))
   \<and> (\<exists>r. socialAccountService_getAccountAnalytics env0 store0 ''a1'' 1 = Inr (Some r)
         \<and> mt_totalPosts (an_metrics r) = 1 \<and> mt_totalViews (an_metrics r) = 0
         \<and> mt_avgEngagementRate (an_metrics r) = Some 0
         \<and> mt_postsPerDay (an_metrics r) = Some 1)"
proof -
  have found: "socialAccountService_getSocialAccountById store0 ''a1'' = Some account1"
    by (simp add: socialAccountService_getSocialAccountById_def findUnique_def store0_def
        account1_def)
  have month: "(0::int) < 30" and day: "(0::int) < 1"
    by simp_all
  have start30: "env_startDate env0 30 = Valid (- 1592000000)"
    and start1: "env_startDate env0 1 = Valid 913600000"
    by (simp_all add: env0_def utc_startDate_def)
  have window30:
    "filter (\<lambda>p. p_socialAccountId p = ''a1'' \<and> - 1592000000 \<le> p_createdAt p)
       (socialPosts store0) = [post1, post2]"
    by (simp add: store0_def post1_def post2_def)
  have window1:
    "filter (\<lambda>p. p_socialAccountId p = ''a1'' \<and> 913600000 \<le> p_createdAt p)
       (socialPosts store0) = [post2]"
    by (simp add: store0_def post1_def post2_def)
  have counts:
    "p_viewsCount post1 = 200" "p_likesCount post1 = 6" "p_commentsCount post1 = 3"
    "p_sharesCount post1 = 1" "p_viewsCount post2 = 0" "p_likesCount post2 = 0"
    "p_commentsCount post2 = 0" "p_sharesCount post2 = 0"
    by (simp_all add: post1_def post2_def)
  from analytics_rates [OF found month, of env0]
  obtain r30 where r30: "socialAccountService_getAccountAnalytics env0 store0 ''a1'' 30 = Inr (Some r30)"
    and t30: "mt_totalPosts (an_metrics r30) = 2" "mt_totalViews (an_metrics r30) = 200"
      "mt_totalLikes (an_metrics r30) = 6" "mt_totalComments (an_metrics r30) = 3"
      "mt_totalShares (an_metrics r30) = 1"
    using start30 by (auto simp: window30 counts)
  from analytics_rates [OF found day, of env0]
  obtain r1 where r1: "socialAccountService_getAccountAnalytics env0 store0 ''a1'' 1 = Inr (Some r1)"
    and t1: "mt_totalPosts (an_metrics r1) = 1" "mt_totalViews (an_metrics r1) = 0"
    using start1 by (auto simp: window1 counts)
  from analytics_rates [OF found month, of env0] r30 t30
  have rate30: "mt_avgEngagementRate (an_metrics r30) = Some 5"
    "mt_postsPerDay (an_metrics r30) = Some (1 / 15)"
    by auto
  from analytics_rates [OF found day, of env0] r1 t1
  have rate1: "mt_avgEngagementRate (an_metrics r1) = Some 0"
    "mt_postsPerDay (an_metrics r1) = Some 1"
    by auto
  show ?thesis
    using found start30 start1 r30 t30 rate30 r1 t1 rate1 by auto
qed

section \<open>Updating a video\<close>

lemma updateVideoStatus_found:
  assumes found: "videoService_findVideoById s i = Some v"
  shows "\<exists>v' s'. videoService_updateVideoStatus e i status progress errorMessage s = (Inr v', s')
           \<and> videoService_findVideoById s' i = Some v'
           \<and> v_userId v' = v_userId v
           \<and> v_status v' = status
           \<and> v_generationProgress v'
               = (case progress of None \<Rightarrow> v_generationProgress v | Some p \<Rightarrow> p)
           \<and> v_errorMessage v'
               = (if truthy errorMessage then errorMessage else v_errorMessage v)"
proof -
  let ?f = "\<lambda>r. r\<lparr> v_status := status,
                     v_generationProgress :=
                       (case progress of None \<Rightarrow> v_generationProgress r | Some p \<Rightarrow> p),
                     v_errorMessage :=
                       (if truthy errorMessage then errorMessage else v_errorMessage r),
                     v_updatedAt := env_now e \<rparr>"
  let ?s' = "s\<lparr>videos := map (\<lambda>x. if v_id x = i then ?f x else x) (videos s)\<rparr>"
  have row: "findUnique v_id (videos s) i = Some v"
    using found by (simp add: videoService_findVideoById_def)
  have run: "videoService_updateVideoStatus e i status progress errorMessage s = (Inr (?f v), ?s')"
    using row by (simp add: videoService_updateVideoStatus_def prisma_update_def)
  have after: "videoService_findVideoById ?s' i = Some (?f v)"
    using findUnique_map_same [OF row, of ?f] by (simp add: videoService_findVideoById_def)
  show ?thesis
    using run after by (intro exI [of _ "?f v"] exI [of _ ?s']) simp
qed

lemma updateVideoContent_found:
  assumes found: "videoService_findVideoById s i = Some v"
  shows "\<exists>v' s'. videoService_updateVideoContent e i d s = (Inr v', s')
           \<and> videoService_findVideoById s' i = Some v'
           \<and> v_status v' = ''ready'' \<and> v_generationProgress v' = 100"
proof -
  let ?f = "\<lambda>r. r\<lparr> v_title := override (vc_title d) (v_title r),
                     v_description := override (vc_description d) (v_description r),
                     v_script := override (vc_script d) (v_script r),
                     v_tags := override (vc_tags d) (v_tags r),
                     v_generationSettings :=
                       override (vc_generationSettings d) (v_generationSettings r),
                     v_status := ''ready'',
                     v_generationProgress := 100,
                     v_updatedAt := env_now e \<rparr>"
  let ?s' = "s\<lparr>videos := map (\<lambda>x. if v_id x = i then ?f x else x) (videos s)\<rparr>"
  have row: "findUnique v_id (videos s) i = Some v"
    using found by (simp add: videoService_findVideoById_def)
  have run: "videoService_updateVideoContent e i d s = (Inr (?f v), ?s')"
    using row by (simp add: videoService_updateVideoContent_def prisma_update_def)
  have after: "videoService_findVideoById ?s' i = Some (?f v)"
    using findUnique_map_same [OF row, of ?f] by (simp add: videoService_findVideoById_def)
  show ?thesis
    using run after by (intro exI [of _ "?f v"] exI [of _ ?s']) simp
qed

lemma has_keys_updateData:
  "has_keys (updateData_of dto) \<longleftrightarrow>
     truthy (uv_title dto) \<or> uv_description dto \<noteq> None \<or> truthy (uv_script dto)
     \<or> uv_tags dto \<noteq> None \<or> uv_generationSettings dto \<noteq> None"
  by (auto simp: has_keys_def updateData_of_def truthy_def split: option.splits)

text \<open>
  C8, as the handler has it, for a request on a video of the caller that carries no content
  field (no non-empty title, no description, no non-empty script, no tags and no generation
  settings). With a non-empty status the request stores that status, the progress if one is
  supplied (otherwise the stored progress stays) and the error message if a non-empty one
  is supplied (otherwise the stored message stays), each of the two independently of the
  other. Without a status the request leaves the store as it was, whatever progress or
  error message it carries.
\<close>

theorem updateVideo_status_fields:
  assumes found: "videoService_findVideoById s i = Some v"
    and owned: "v_userId v = u"
    and plain: "\<not> has_keys (updateData_of dto)"
  shows "if truthy (uv_status dto)
         then \<exists>v'. videoService_findVideoById (snd (videosController_updateVideo e u i dto s)) i
                      = Some v'
                \<and> v_status v' = the (uv_status dto)
                \<and> v_generationProgress v'
                    = (case uv_generationProgress dto of
                         None \<Rightarrow> v_generationProgress v
                       | Some p \<Rightarrow> p)
                \<and> v_errorMessage v'
                    = (if truthy (uv_errorMessage dto) then uv_errorMessage dto
                       else v_errorMessage v)
         else snd (videosController_updateVideo e u i dto s) = s"
proof (cases "truthy (uv_status dto)")
  case True
  from updateVideoStatus_found [OF found, of e "the (uv_status dto)"
      "uv_generationProgress dto" "uv_errorMessage dto"]
  obtain v' s' where run:
      "videoService_updateVideoStatus e i (the (uv_status dto)) (uv_generationProgress dto)
         (uv_errorMessage dto) s = (Inr v', s')"
    and after: "videoService_findVideoById s' i = Some v'"
    and vals: "v_status v' = the (uv_status dto)"
      "v_generationProgress v'
         = (case uv_generationProgress dto of None \<Rightarrow> v_generationProgress v | Some p \<Rightarrow> p)"
      "v_errorMessage v'
         = (if truthy (uv_errorMessage dto) then uv_errorMessage dto else v_errorMessage v)"
    by blast
  have "snd (videosController_updateVideo e u i dto s) = s'"
    using found owned plain True run
    by (simp add: videosController_updateVideo_def and_then_def catch_code_def
        split: sum.splits prod.splits)
  with after vals True show ?thesis
    by simp
next
  case False
  have "snd (videosController_updateVideo e u i dto s) = s"
    using found owned plain False
    by (simp add: videosController_updateVideo_def and_then_def catch_code_def
        split: sum.splits prod.splits)
  with False show ?thesis
    by simp
qed

theorem updateVideo_status_fields_witness:
  "videoService_findVideoById store0 ''v1'' = Some video1 \<and> v_userId video1 = ''u1''
   \<and> \<not> has_keys (updateData_of status_and_progress) \<and> truthy (uv_status status_and_progress)
   \<and> (\<exists>v'. videoService_findVideoById
                 (snd (videosController_updateVideo env0 ''u1'' ''v1'' status_and_progress store0))
                 ''v1'' = Some v'
          \<and> v_status v' = ''processing'' \<and> v_generationProgress v' = 40
          \<and> v_errorMessage v' = None)
   \<and> \<not> has_keys (updateData_of progress_only) \<and> \<not> truthy (uv_status progress_only)
   \<and> snd (videosController_updateVideo env0 ''u1'' ''v1'' progress_only store0) = store0"
proof -
  have found: "videoService_findVideoById store0 ''v1'' = Some video1"
    by (simp add: videoService_findVideoById_def findUnique_def store0_def video1_def)
  have owned: "v_userId video1 = ''u1''"
    by (simp add: video1_def)
  have plain: "\<not> has_keys (updateData_of status_and_progress)"
    "\<not> has_keys (updateData_of progress_only)"
    by (simp_all add: has_keys_def updateData_of_def truthy_def status_and_progress_def
        progress_only_def no_video_fields_def)
  have status: "truthy (uv_status status_and_progress)" "\<not> truthy (uv_status progress_only)"
    "the (uv_status status_and_progress) = ''processing''"
    "uv_generationProgress status_and_progress = Some 40"
    "uv_errorMessage status_and_progress = None"
    by (simp_all add: truthy_def status_and_progress_def progress_only_def no_video_fields_def)
  have old: "v_errorMessage video1 = None"
    by (simp add: video1_def)
  from updateVideo_status_fields [OF found owned plain(1), of env0]
    updateVideo_status_fields [OF found owned plain(2), of env0]
  show ?thesis
    using found owned plain status old by (simp add: truthy_def)
qed

text \<open>
  The claim as stated fails: after a request with only a progress, or with only an error
  message, the stored video is as it was.
\<close>

theorem updateVideo_progress_only_ignored:
  "videoService_findVideoById store0 ''v1'' = Some video1 \<and> v_userId video1 = ''u1''
   \<and> uv_generationProgress progress_only = Some 50 \<and> uv_status progress_only = None
   \<and> videoService_findVideoById
        (snd (videosController_updateVideo env0 ''u1'' ''v1'' progress_only store0)) ''v1''
        = Some video1
   \<and> v_generationProgress video1 = 0
   \<and> uv_errorMessage error_only = Some ''render failed'' \<and> uv_status error_only = None
   \<and> videoService_findVideoById
        (snd (videosController_updateVideo env0 ''u1'' ''v1'' error_only store0)) ''v1''
        = Some video1
   \<and> v_errorMessage video1 = None"
proof -
  have found: "videoService_findVideoById store0 ''v1'' = Some video1"
    by (simp add: videoService_findVideoById_def findUnique_def store0_def video1_def)
  have fields: "v_userId video1 = ''u1''" "v_generationProgress video1 = 0"
    "v_errorMessage video1 = None"
    by (simp_all add: video1_def)
  have dto: "uv_generationProgress progress_only = Some 50" "uv_status progress_only = None"
    "uv_errorMessage error_only = Some ''render failed''" "uv_status error_only = None"
    "\<not> has_keys (updateData_of progress_only)" "\<not> has_keys (updateData_of error_only)"
    by (simp_all add: progress_only_def error_only_def no_video_fields_def has_keys_def
        updateData_of_def truthy_def)
  have run: "snd (videosController_updateVideo env0 ''u1'' ''v1'' progress_only store0) = store0"
    "snd (videosController_updateVideo env0 ''u1'' ''v1'' error_only store0) = store0"
    using found fields dto
    by (simp_all add: videosController_updateVideo_def and_then_def catch_code_def truthy_def
        split: sum.splits)
  show ?thesis
    using found fields dto run by simp
qed

text \<open>
  C10, as the handler has it. On a video of the caller, a request that carries a non-empty
  title, a description (a string or null), a non-empty script, tags or generation settings
  leaves the stored video \<open>ready\<close> with progress 100, whether or not it supplies a
  status.
\<close>

theorem updateVideo_content_ready:
  assumes found: "videoService_findVideoById s i = Some v"
    and owned: "v_userId v = u"
    and content: "truthy (uv_title dto) \<or> uv_description dto \<noteq> None \<or> truthy (uv_script dto)
                  \<or> uv_tags dto \<noteq> None \<or> uv_generationSettings dto \<noteq> None"
  shows "\<exists>v'. videoService_findVideoById (snd (videosController_updateVideo e u i dto s)) i
                 = Some v'
           \<and> v_status v' = ''ready'' \<and> v_generationProgress v' = 100"
proof -
  have keys: "has_keys (updateData_of dto)"
    using content by (simp add: has_keys_updateData)
  obtain s1 v1 where first:
      "(if truthy (uv_status dto)
        then and_then
               (videoService_updateVideoStatus e i (the (uv_status dto))
                  (uv_generationProgress dto) (uv_errorMessage dto) s)
               (\<lambda>written s1. (Inr (), s1))
        else (Inr (), s)) = (Inr (), s1)"
    and found1: "videoService_findVideoById s1 i = Some v1"
  proof (cases "truthy (uv_status dto)")
    case True
    from updateVideoStatus_found [OF found, of e "the (uv_status dto)"
        "uv_generationProgress dto" "uv_errorMessage dto"]
    obtain v' s' where
        "videoService_updateVideoStatus e i (the (uv_status dto)) (uv_generationProgress dto)
           (uv_errorMessage dto) s = (Inr v', s')"
      and "videoService_findVideoById s' i = Some v'"
      by blast
    with True that [of s' v'] show ?thesis
      by (simp add: and_then_def)
  next
    case False
    with found that [of s v] show ?thesis
      by simp
  qed
  from updateVideoContent_found [OF found1, of e "updateData_of dto"]
  obtain v2 s2 where second:
      "videoService_updateVideoContent e i (updateData_of dto) s1 = (Inr v2, s2)"
    and found2: "videoService_findVideoById s2 i = Some v2"
    and ready: "v_status v2 = ''ready''" "v_generationProgress v2 = 100"
    by blast
  have "snd (videosController_updateVideo e u i dto s) = s2"
    using found owned keys first second
    by (simp add: videosController_updateVideo_def and_then_def catch_code_def
        split: sum.splits prod.splits)
  with found2 ready show ?thesis
    by simp
qed

theorem updateVideo_content_ready_witness:
  "videoService_findVideoById store0 ''v1'' = Some video1 \<and> v_userId video1 = ''u1''
   \<and> truthy (uv_title title_only) \<and> uv_status title_only = None
   \<and> v_status video1 = ''queued''
   \<and> (\<exists>v'. videoService_findVideoById
                 (snd (videosController_updateVideo env0 ''u1'' ''v1'' title_only store0)) ''v1''
                 = Some v'
          \<and> v_status v' = ''ready'' \<and> v_generationProgress v' = 100)"
proof -
  have found: "videoService_findVideoById store0 ''v1'' = Some video1"
    by (simp add: videoService_findVideoById_def findUnique_def store0_def video1_def)
  have owned: "v_userId video1 = ''u1''" and queued: "v_status video1 = ''queued''"
    by (simp_all add: video1_def)
  have title: "truthy (uv_title title_only)" and status: "uv_status title_only = None"
    by (simp_all add: truthy_def title_only_def no_video_fields_def)
  have content: "truthy (uv_title title_only) \<or> uv_description title_only \<noteq> None
      \<or> truthy (uv_script title_only) \<or> uv_tags title_only \<noteq> None
      \<or> uv_generationSettings title_only \<noteq> None"
    using title by simp
  from updateVideo_content_ready [OF found owned content, of env0]
  show ?thesis
    using found owned queued title status by simp
qed

text \<open>
  The claim as stated fails: after a request that supplies the content field \<open>title\<close> as
  an empty string, a queued video is still queued.
\<close>

theorem updateVideo_empty_title_stays_queued:
  "videoService_findVideoById store0 ''v1'' = Some video1 \<and> v_userId video1 = ''u1''
   \<and> uv_title empty_title_only = Some []
   \<and> videoService_findVideoById
        (snd (videosController_updateVideo env0 ''u1'' ''v1'' empty_title_only store0)) ''v1''
        = Some video1
   \<and> v_status video1 = ''queued'' \<and> v_generationProgress video1 = 0"
proof -
  have found: "videoService_findVideoById store0 ''v1'' = Some video1"
    by (simp add: videoService_findVideoById_def findUnique_def store0_def video1_def)
  have fields: "v_userId video1 = ''u1''" "v_status video1 = ''queued''"
    "v_generationProgress video1 = 0"
    by (simp_all add: video1_def)
  have dto: "uv_title empty_title_only = Some []" "uv_status empty_title_only = None"
    "\<not> has_keys (updateData_of empty_title_only)"
    by (simp_all add: empty_title_only_def no_video_fields_def has_keys_def updateData_of_def
        truthy_def)
  have run: "snd (videosController_updateVideo env0 ''u1'' ''v1'' empty_title_only store0)
               = store0"
    using found fields dto
    by (simp add: videosController_updateVideo_def and_then_def catch_code_def truthy_def
        split: sum.splits)
  show ?thesis
    using found fields dto run by simp
qed

section \<open>Creating a profile\<close>

text \<open>
  C9. Creating a profile with the email address of an existing profile is answered with
  \<open>BadRequestException\<close>, status 400, and not with the conflict status 409 that the
  handler documents for an existing profile, that the connect handler raises for the same
  store error, and that the exception filter gives the store error itself.
\<close>

theorem createProfile_duplicate_email_bad_request:
  "userService_findProfileByEmail store0 (cd_email duplicate_profile) = Some profile1
   \<and> usersController_createProfile env0 duplicate_profile store0
        = (Inl (BadRequestException ''Profile with this email already exists''), store0)
   \<and> catch_status (BadRequestException ''Profile with this email already exists'') = 400
   \<and> catch_status (PrismaClientKnownRequestError ''P2002'') = 409
   \<and> catch_status (ConflictException ''This social account is already connected'') = 409"
  by (simp add: usersController_createProfile_def userService_createProfile_def
      userService_findProfileByEmail_def findUnique_def and_then_def catch_code_def
      handlePrismaError_def store0_def profile1_def duplicate_profile_def env0_def)

end
